theory Spec2Isabelle
  imports Main "HOL-Library.Word"
begin

section \<open>The TSDB engine: repository, memtables and file groups\<close>

text \<open>
  A shallow embedding of the repository layer (\<^verbatim>\<open>tsdbMain.c\<close>: configuration, freeze,
  commit task, insert path) and of the file layer (\<^verbatim>\<open>tsdbFile.c\<close>: file groups, the
  file directory, key ranges). C integers are words of their width; a comparison of C
  reads the operands as signed integers (\<open>sint\<close>). Return codes are integers: 0 is
  success and a negative number is an error.
\<close>

subsection \<open>Configuration\<close>

text \<open>
  \<^verbatim>\<open>STsdbCfg\<close>: precision is an \<^verbatim>\<open>int8_t\<close>, \<^verbatim>\<open>maxCacheSize\<close> an \<^verbatim>\<open>int64_t\<close>, the
  other fields are \<^verbatim>\<open>int32_t\<close>.
\<close>

record STsdbCfg =
  precision :: "8 word"
  tsdbId :: "32 word"
  maxTables :: "32 word"
  daysPerFile :: "32 word"
  minRowsPerFileBlock :: "32 word"
  maxRowsPerFileBlock :: "32 word"
  keep :: "32 word"
  maxCacheSize :: "64 word"

text \<open>
  The precision codes \<^verbatim>\<open>TSDB_PRECISION_MILLI\<close> and \<^verbatim>\<open>TSDB_PRECISION_NANO\<close> come from a
  header that is not part of the sources; they are parameters \<open>pMILLI\<close> and \<open>pNANO\<close>
  of everything that uses them. The other bounds are the macros of \<^verbatim>\<open>tsdbMain.c\<close>.
\<close>

definition IS_VALID_PRECISION :: "8 word \<Rightarrow> 8 word \<Rightarrow> 8 word \<Rightarrow> bool" where
  "IS_VALID_PRECISION pMILLI pNANO p \<longleftrightarrow> sint p \<ge> sint pMILLI \<and> sint p \<le> sint pNANO"

definition TSDB_MIN_TABLES :: int where "TSDB_MIN_TABLES = 10"
definition TSDB_MAX_TABLES :: int where "TSDB_MAX_TABLES = 100000"
definition TSDB_DEFAULT_TABLES :: "32 word" where "TSDB_DEFAULT_TABLES = 1000"
definition TSDB_DEFAULT_DAYS_PER_FILE :: "32 word" where "TSDB_DEFAULT_DAYS_PER_FILE = 10"
definition TSDB_MIN_DAYS_PER_FILE :: int where "TSDB_MIN_DAYS_PER_FILE = 1"
definition TSDB_MAX_DAYS_PER_FILE :: int where "TSDB_MAX_DAYS_PER_FILE = 60"
definition TSDB_DEFAULT_MIN_ROW_FBLOCK :: "32 word" where "TSDB_DEFAULT_MIN_ROW_FBLOCK = 100"
definition TSDB_MIN_MIN_ROW_FBLOCK :: int where "TSDB_MIN_MIN_ROW_FBLOCK = 10"
definition TSDB_MAX_MIN_ROW_FBLOCK :: int where "TSDB_MAX_MIN_ROW_FBLOCK = 1000"
definition TSDB_DEFAULT_MAX_ROW_FBLOCK :: "32 word" where "TSDB_DEFAULT_MAX_ROW_FBLOCK = 4096"
definition TSDB_MIN_MAX_ROW_FBLOCK :: int where "TSDB_MIN_MAX_ROW_FBLOCK = 200"
definition TSDB_MAX_MAX_ROW_FBLOCK :: int where "TSDB_MAX_MAX_ROW_FBLOCK = 10000"
definition TSDB_DEFAULT_KEEP :: "32 word" where "TSDB_DEFAULT_KEEP = 3650"
definition TSDB_MIN_KEEP :: int where "TSDB_MIN_KEEP = 1"
definition TSDB_MAX_KEEP :: int where "TSDB_MAX_KEEP = 2147483647"
definition TSDB_DEFAULT_CACHE_SIZE :: "64 word" where "TSDB_DEFAULT_CACHE_SIZE = 16 * 1024 * 1024"
definition TSDB_MIN_CACHE_SIZE :: int where "TSDB_MIN_CACHE_SIZE = 4 * 1024 * 1024"
definition TSDB_MAX_CACHE_SIZE :: int where "TSDB_MAX_CACHE_SIZE = 1024 * 1024 * 1024"

text \<open>
  \<^verbatim>\<open>tsdbCheckAndSetDefaultCfg\<close> writes through its pointer as it goes and returns at the
  first field out of bounds, so the model returns the code together with the
  configuration as it stands at that point. Each step below is one block of the source,
  in the source's order.
\<close>

definition cfg_precision :: "8 word \<Rightarrow> 8 word \<Rightarrow> STsdbCfg \<Rightarrow> int \<times> STsdbCfg" where
  "cfg_precision pMILLI pNANO c =
     (if precision c = - 1 then (0, c\<lparr>precision := pMILLI\<rparr>)
      else if \<not> IS_VALID_PRECISION pMILLI pNANO (precision c) then (- 1, c)
      else (0, c))"

definition cfg_tsdbId :: "STsdbCfg \<Rightarrow> int \<times> STsdbCfg" where
  "cfg_tsdbId c = (if sint (tsdbId c) < 0 then (- 1, c) else (0, c))"

definition cfg_maxTables :: "STsdbCfg \<Rightarrow> int \<times> STsdbCfg" where
  "cfg_maxTables c =
     (if maxTables c = - 1 then (0, c\<lparr>maxTables := TSDB_DEFAULT_TABLES\<rparr>)
      else if sint (maxTables c) < TSDB_MIN_TABLES \<or> sint (maxTables c) > TSDB_MAX_TABLES
        then (- 1, c)
      else (0, c))"

definition cfg_daysPerFile :: "STsdbCfg \<Rightarrow> int \<times> STsdbCfg" where
  "cfg_daysPerFile c =
     (if daysPerFile c = - 1 then (0, c\<lparr>daysPerFile := TSDB_DEFAULT_DAYS_PER_FILE\<rparr>)
      else if sint (daysPerFile c) < TSDB_MIN_DAYS_PER_FILE
              \<or> sint (daysPerFile c) > TSDB_MAX_DAYS_PER_FILE
        then (- 1, c)
      else (0, c))"

definition cfg_minRows :: "STsdbCfg \<Rightarrow> int \<times> STsdbCfg" where
  "cfg_minRows c =
     (if minRowsPerFileBlock c = - 1
        then (0, c\<lparr>minRowsPerFileBlock := TSDB_DEFAULT_MIN_ROW_FBLOCK\<rparr>)
      else if sint (minRowsPerFileBlock c) < TSDB_MIN_MIN_ROW_FBLOCK
              \<or> sint (minRowsPerFileBlock c) > TSDB_MAX_MIN_ROW_FBLOCK
        then (- 1, c)
      else (0, c))"

definition cfg_maxRows :: "STsdbCfg \<Rightarrow> int \<times> STsdbCfg" where
  "cfg_maxRows c =
     (if maxRowsPerFileBlock c = - 1
        then (0, c\<lparr>maxRowsPerFileBlock := TSDB_DEFAULT_MAX_ROW_FBLOCK\<rparr>)
      else if sint (maxRowsPerFileBlock c) < TSDB_MIN_MAX_ROW_FBLOCK
              \<or> sint (maxRowsPerFileBlock c) > TSDB_MAX_MAX_ROW_FBLOCK
        then (- 1, c)
      else (0, c))"

definition cfg_minLeMax :: "STsdbCfg \<Rightarrow> int \<times> STsdbCfg" where
  "cfg_minLeMax c =
     (if sint (minRowsPerFileBlock c) > sint (maxRowsPerFileBlock c) then (- 1, c) else (0, c))"

definition cfg_keep :: "STsdbCfg \<Rightarrow> int \<times> STsdbCfg" where
  "cfg_keep c =
     (if keep c = - 1 then (0, c\<lparr>keep := TSDB_DEFAULT_KEEP\<rparr>)
      else if sint (keep c) < TSDB_MIN_KEEP \<or> sint (keep c) > TSDB_MAX_KEEP then (- 1, c)
      else (0, c))"

definition cfg_maxCacheSize :: "STsdbCfg \<Rightarrow> int \<times> STsdbCfg" where
  "cfg_maxCacheSize c =
     (if maxCacheSize c = - 1 then (0, c\<lparr>maxCacheSize := TSDB_DEFAULT_CACHE_SIZE\<rparr>)
      else if sint (maxCacheSize c) < TSDB_MIN_CACHE_SIZE
              \<or> sint (maxCacheSize c) > TSDB_MAX_CACHE_SIZE
        then (- 1, c)
      else (0, c))"

text \<open>Sequencing with early return: the next block runs only if this one did not return.\<close>

definition and_then :: "int \<times> STsdbCfg \<Rightarrow> (STsdbCfg \<Rightarrow> int \<times> STsdbCfg) \<Rightarrow> int \<times> STsdbCfg" where
  "and_then r f = (if fst r < 0 then r else f (snd r))"

definition tsdbCheckAndSetDefaultCfg :: "8 word \<Rightarrow> 8 word \<Rightarrow> STsdbCfg \<Rightarrow> int \<times> STsdbCfg" where
  "tsdbCheckAndSetDefaultCfg pMILLI pNANO pCfg =
     and_then (and_then (and_then (and_then (and_then (and_then (and_then (and_then
       (cfg_precision pMILLI pNANO pCfg)
       cfg_tsdbId) cfg_maxTables) cfg_daysPerFile) cfg_minRows) cfg_maxRows) cfg_minLeMax)
       cfg_keep) cfg_maxCacheSize"

text \<open>
  The specification's side, from its table of bounds: a field holding the sentinel
  \<open>-1\<close> takes its default; any other value must lie within its bounds.
\<close>

definition spec_defaults :: "8 word \<Rightarrow> STsdbCfg \<Rightarrow> STsdbCfg" where
  "spec_defaults pMILLI c =
     \<lparr> precision = (if precision c = - 1 then pMILLI else precision c),
       tsdbId = tsdbId c,
       maxTables = (if maxTables c = - 1 then 1000 else maxTables c),
       daysPerFile = (if daysPerFile c = - 1 then 10 else daysPerFile c),
       minRowsPerFileBlock = (if minRowsPerFileBlock c = - 1 then 100 else minRowsPerFileBlock c),
       maxRowsPerFileBlock = (if maxRowsPerFileBlock c = - 1 then 4096 else maxRowsPerFileBlock c),
       keep = (if keep c = - 1 then 3650 else keep c),
       maxCacheSize = (if maxCacheSize c = - 1 then 16777216 else maxCacheSize c) \<rparr>"

definition within :: "int \<Rightarrow> int \<Rightarrow> int \<Rightarrow> bool" where
  "within lo hi v \<longleftrightarrow> lo \<le> v \<and> v \<le> hi"

definition spec_cfg_ok :: "8 word \<Rightarrow> 8 word \<Rightarrow> STsdbCfg \<Rightarrow> bool" where
  "spec_cfg_ok pMILLI pNANO c \<longleftrightarrow>
     (precision c = - 1 \<or> within (sint pMILLI) (sint pNANO) (sint (precision c))) \<and>
     (maxTables c = - 1 \<or> within 10 100000 (sint (maxTables c))) \<and>
     (daysPerFile c = - 1 \<or> within 1 60 (sint (daysPerFile c))) \<and>
     (minRowsPerFileBlock c = - 1 \<or> within 10 1000 (sint (minRowsPerFileBlock c))) \<and>
     (maxRowsPerFileBlock c = - 1 \<or> within 200 10000 (sint (maxRowsPerFileBlock c))) \<and>
     (keep c = - 1 \<or> 1 \<le> sint (keep c)) \<and>
     (maxCacheSize c = - 1 \<or> within 4194304 1073741824 (sint (maxCacheSize c))) \<and>
     0 \<le> sint (tsdbId c) \<and>
     sint (minRowsPerFileBlock (spec_defaults pMILLI c))
       \<le> sint (maxRowsPerFileBlock (spec_defaults pMILLI c))"


subsection \<open>The environment: a POSIX file system\<close>

text \<open>
  The file layer talks to the operating system through \<^verbatim>\<open>access\<close>, \<^verbatim>\<open>open\<close>,
  \<^verbatim>\<open>lseek\<close>, \<^verbatim>\<open>write\<close>, \<^verbatim>\<open>read\<close> and \<^verbatim>\<open>close\<close>. The model of these calls is a
  small file system: the regular files by path, the table of open descriptors (the
  index is the descriptor number), and two sets of paths on which \<^verbatim>\<open>open\<close> and
  \<^verbatim>\<open>write\<close> fail for reasons of the environment (permissions, a full disk).

  One call of \<^verbatim>\<open>write\<close> or \<^verbatim>\<open>read\<close> transfers no more than a bound \<open>lim\<close> of the
  operating system (\<^verbatim>\<open>0x7ffff000\<close> bytes on Linux) and returns the number of bytes it
  transferred, which is less than what was asked when the request is larger.
\<close>

type_synonym byte = "8 word"

datatype accmode = O_RDONLY | O_WRONLY | O_RDWR

record open_file =
  of_path :: string
  of_pos :: nat
  of_mode :: accmode

record fsys =
  disk :: "string \<rightharpoonup> byte list"
  fdt :: "open_file option list"
  deny_open :: "string set"
  deny_write :: "string set"

definition fd_lookup :: "fsys \<Rightarrow> int \<Rightarrow> open_file option" where
  "fd_lookup fs d = (if 0 \<le> d \<and> nat d < length (fdt fs) then fdt fs ! nat d else None)"

fun first_free :: "'a option list \<Rightarrow> nat" where
  "first_free [] = 0"
| "first_free (None # xs) = 0"
| "first_free (Some x # xs) = Suc (first_free xs)"

definition fd_install :: "open_file option list \<Rightarrow> open_file \<Rightarrow> open_file option list" where
  "fd_install t f =
     (if first_free t < length t then t[first_free t := Some f] else t @ [Some f])"

definition file_bytes :: "fsys \<Rightarrow> string \<Rightarrow> byte list" where
  "file_bytes fs p = (case disk fs p of None \<Rightarrow> [] | Some bs \<Rightarrow> bs)"

definition sys_access :: "fsys \<Rightarrow> string \<Rightarrow> int" where
  \<comment> \<open>\<^verbatim>\<open>access(path, F_OK)\<close>\<close>
  "sys_access fs p = (if disk fs p \<noteq> None then 0 else - 1)"

definition sys_open :: "fsys \<Rightarrow> string \<Rightarrow> accmode \<Rightarrow> bool \<Rightarrow> int \<times> fsys" where
  \<comment> \<open>\<^verbatim>\<open>open(path, mode | (creat ? O_CREAT : 0), 0755)\<close>: the lowest free descriptor;
      no \<^verbatim>\<open>O_TRUNC\<close>, so an existing file keeps its bytes\<close>
  "sys_open fs p m creat =
     (if p \<in> deny_open fs then (- 1, fs)
      else if disk fs p = None \<and> \<not> creat then (- 1, fs)
      else (int (first_free (fdt fs)),
            fs\<lparr>disk := (if disk fs p = None then (disk fs)(p \<mapsto> []) else disk fs),
               fdt := fd_install (fdt fs) \<lparr>of_path = p, of_pos = 0, of_mode = m\<rparr>\<rparr>))"

definition sys_lseek_set :: "fsys \<Rightarrow> int \<Rightarrow> int \<Rightarrow> int \<times> fsys" where
  \<comment> \<open>\<^verbatim>\<open>lseek(fd, off, SEEK_SET)\<close>\<close>
  "sys_lseek_set fs d off =
     (case fd_lookup fs d of
        None \<Rightarrow> (- 1, fs)
      | Some f \<Rightarrow>
          if off < 0 then (- 1, fs)
          else (off, fs\<lparr>fdt := (fdt fs)[nat d := Some (f\<lparr>of_pos := nat off\<rparr>)]\<rparr>))"

definition write_at :: "byte list \<Rightarrow> nat \<Rightarrow> byte list \<Rightarrow> byte list" where
  \<comment> \<open>the bytes of a file after writing \<open>bs\<close> at position \<open>pos\<close>: a gap beyond the
      old end reads as zeros\<close>
  "write_at old pos bs =
     (if bs = [] then old
      else take pos old @ replicate (pos - length old) 0 @ bs @ drop (pos + length bs) old)"

definition sys_write :: "nat \<Rightarrow> fsys \<Rightarrow> int \<Rightarrow> byte list \<Rightarrow> int \<times> fsys" where
  \<comment> \<open>\<^verbatim>\<open>write(fd, buf, count)\<close>, \<open>bs\<close> being the \<open>count\<close> bytes at \<open>buf\<close>: the first
      \<open>lim\<close> of them are written\<close>
  "sys_write lim fs d bs =
     (case fd_lookup fs d of
        None \<Rightarrow> (- 1, fs)
      | Some f \<Rightarrow>
          if of_mode f = O_RDONLY \<or> of_path f \<in> deny_write fs then (- 1, fs)
          else let ws = take lim bs
               in (int (length ws),
                   fs\<lparr>disk := (disk fs)(of_path f \<mapsto> write_at (file_bytes fs (of_path f)) (of_pos f) ws),
                      fdt := (fdt fs)[nat d := Some (f\<lparr>of_pos := of_pos f + length ws\<rparr>)]\<rparr>))"

definition sys_read :: "nat \<Rightarrow> fsys \<Rightarrow> int \<Rightarrow> nat \<Rightarrow> int \<times> byte list \<times> fsys" where
  \<comment> \<open>\<^verbatim>\<open>read(fd, buf, n)\<close>: the bytes from the position on, at most \<open>n\<close> and at most
      \<open>lim\<close> of them\<close>
  "sys_read lim fs d n =
     (case fd_lookup fs d of
        None \<Rightarrow> (- 1, [], fs)
      | Some f \<Rightarrow>
          if of_mode f = O_WRONLY then (- 1, [], fs)
          else let bs = take (min n lim) (drop (of_pos f) (file_bytes fs (of_path f)))
               in (int (length bs), bs,
                   fs\<lparr>fdt := (fdt fs)[nat d := Some (f\<lparr>of_pos := of_pos f + length bs\<rparr>)]\<rparr>))"

definition sys_close :: "fsys \<Rightarrow> int \<Rightarrow> int \<times> fsys" where
  "sys_close fs d =
     (case fd_lookup fs d of
        None \<Rightarrow> (- 1, fs)
      | Some f \<Rightarrow> (0, fs\<lparr>fdt := (fdt fs)[nat d := None]\<rparr>))"

subsection \<open>Files and file groups (\<^verbatim>\<open>tsdbFile.c\<close>)\<close>

text \<open>
  The header \<^verbatim>\<open>tsdbFile.h\<close> is not part of the sources. What the code takes from it
  and cannot be read off the code is a parameter: the size of the file header
  (\<^verbatim>\<open>TSDB_FILE_HEAD_SIZE\<close>), the size of one index entry (\<^verbatim>\<open>sizeof(SCompIdx)\<close>) and
  the test \<^verbatim>\<open>TSDB_IS_FILE_OPENED\<close> on a descriptor field. With them goes the bound of
  the operating system on the bytes of one \<^verbatim>\<open>write\<close> or \<^verbatim>\<open>read\<close> (\<open>MAX_RW_COUNT\<close>).
\<close>

record fhdr =
  TSDB_FILE_HEAD_SIZE :: nat
  sizeof_SCompIdx :: nat
  TSDB_IS_FILE_OPENED :: "int \<Rightarrow> bool"
  MAX_RW_COUNT :: nat

record SFile =
  fname :: string
  fd :: int
  fsize :: int

record SFileGroup =
  fileId :: "32 word"
  files :: "SFile list"

text \<open>
  \<^verbatim>\<open>STsdbFileH\<close>: the array \<^verbatim>\<open>fGroup\<close> holds \<^verbatim>\<open>numOfFGroups\<close> groups; the list is the
  used part of the array, so \<^verbatim>\<open>numOfFGroups\<close> is its length.
\<close>

record STsdbFileH =
  maxFGroups :: int
  fGroup :: "SFileGroup list"

definition numOfFGroups :: "STsdbFileH \<Rightarrow> int" where
  "numOfFGroups h = int (length (fGroup h))"

text \<open>The suffixes, in the order of the file types: head, data, last.\<close>

definition tsdbFileSuffix :: "string list" where
  "tsdbFileSuffix = [''.head'', ''.data'', ''.last'']"

text \<open>\<^verbatim>\<open>sprintf(fname, "%s/f%d%s", dataDir, fileId, suffix)\<close>: decimal digits of an int.\<close>

fun show_nat :: "nat \<Rightarrow> string" where
  "show_nat n =
     (if n < 10 then [''0123456789'' ! n]
      else show_nat (n div 10) @ [''0123456789'' ! (n mod 10)])"

definition show_int :: "int \<Rightarrow> string" where
  "show_int i = (if i < 0 then CHR ''-'' # show_nat (nat (- i)) else show_nat (nat i))"

definition tsdbGetFileName :: "string \<Rightarrow> 32 word \<Rightarrow> string \<Rightarrow> string" where
  "tsdbGetFileName dataDir fid suffix = dataDir @ ''/f'' @ show_int (sint fid) @ suffix"

definition tsdbOpenFile :: "fhdr \<Rightarrow> SFile \<Rightarrow> accmode \<Rightarrow> bool \<Rightarrow> fsys \<Rightarrow> int \<times> SFile \<times> fsys" where
  "tsdbOpenFile H pFile m creat fs =
     (if TSDB_IS_FILE_OPENED H (fd pFile) then (- 1, pFile, fs)
      else let (d, fs') = sys_open fs (fname pFile) m creat in
           if d < 0 then (- 1, pFile\<lparr>fd := d\<rparr>, fs') else (0, pFile\<lparr>fd := d\<rparr>, fs'))"

definition tsdbCloseFile :: "fhdr \<Rightarrow> SFile \<Rightarrow> fsys \<Rightarrow> int \<times> SFile \<times> fsys" where
  "tsdbCloseFile H pFile fs =
     (if \<not> TSDB_IS_FILE_OPENED H (fd pFile) then (- 1, pFile, fs)
      else let (ret, fs') = sys_close fs (fd pFile) in (ret, pFile\<lparr>fd := - 1\<rparr>, fs'))"

definition tsdbWriteFileHead :: "fhdr \<Rightarrow> SFile \<Rightarrow> fsys \<Rightarrow> int \<times> SFile \<times> fsys" where
  "tsdbWriteFileHead H pFile fs =
     (let pFile' = pFile\<lparr>fsize := fsize pFile + int (TSDB_FILE_HEAD_SIZE H)\<rparr>;
          (_, fs1) = sys_lseek_set fs (fd pFile') 0;
          (w, fs2) = sys_write (MAX_RW_COUNT H) fs1 (fd pFile') (replicate (TSDB_FILE_HEAD_SIZE H) 0)
      in if w < 0 then (- 1, pFile', fs2) else (0, pFile', fs2))"

text \<open>
  \<^verbatim>\<open>int size = sizeof(SCompIdx) * maxTables\<close>: the product is computed in \<^verbatim>\<open>size_t\<close>
  and cut to 32 bits. A negative size is an enormous request to \<^verbatim>\<open>calloc\<close>, which
  returns \<^verbatim>\<open>NULL\<close>; any other request is granted.
\<close>

definition idx_region_size :: "fhdr \<Rightarrow> 32 word \<Rightarrow> int" where
  "idx_region_size H nTables =
     sint (word_of_int (int (sizeof_SCompIdx H) * sint nTables) :: 32 word)"

definition tsdbWriteHeadFileIdx :: "fhdr \<Rightarrow> SFile \<Rightarrow> 32 word \<Rightarrow> fsys \<Rightarrow> int \<times> SFile \<times> fsys" where
  "tsdbWriteHeadFileIdx H pFile nTables fs =
     (let sz = idx_region_size H nTables in
      if sz < 0 then (- 1, pFile, fs)
      else let (p, fs1) = sys_lseek_set fs (fd pFile) (int (TSDB_FILE_HEAD_SIZE H)) in
           if p < 0 then (- 1, pFile, fs1)
           else let (w, fs2) = sys_write (MAX_RW_COUNT H) fs1 (fd pFile) (replicate (nat sz) 0) in
                if w < 0 then (- 1, pFile, fs2)
                else (0, pFile\<lparr>fsize := fsize pFile + sz\<rparr>, fs2))"

definition tsdbCreateFile ::
  "fhdr \<Rightarrow> string \<Rightarrow> 32 word \<Rightarrow> string \<Rightarrow> 32 word \<Rightarrow> bool \<Rightarrow> bool \<Rightarrow> fsys \<Rightarrow> int \<times> SFile \<times> fsys" where
  "tsdbCreateFile H dataDir fid suffix nTables writeHeader toClose fs =
     (let pFile = \<lparr>fname = tsdbGetFileName dataDir fid suffix, fd = - 1, fsize = 0\<rparr> in
      if sys_access fs (fname pFile) = 0 then (- 1, pFile, fs)
      else let (ro, pFile1, fs1) = tsdbOpenFile H pFile O_WRONLY True fs in
      if ro < 0 then (- 1, pFile1, fs1)
      else let (ri, pFile2, fs2) =
                 (if writeHeader then tsdbWriteHeadFileIdx H pFile1 nTables fs1
                  else (0, pFile1, fs1)) in
      if ri < 0 then (let (_, pFile3, fs3) = tsdbCloseFile H pFile2 fs2 in (- 1, pFile3, fs3))
      else let (rh, pFile3, fs3) = tsdbWriteFileHead H pFile2 fs2 in
      if rh < 0 then (let (_, pFile4, fs4) = tsdbCloseFile H pFile3 fs3 in (- 1, pFile4, fs4))
      else if toClose then (let (_, pFile4, fs4) = tsdbCloseFile H pFile3 fs3 in (0, pFile4, fs4))
      else (0, pFile3, fs3))"

text \<open>
  The comparison functions return the difference of two \<^verbatim>\<open>int\<close> file ids; the
  subtraction wraps around at 32 bits.
\<close>

definition compFGroupKey :: "32 word \<Rightarrow> SFileGroup \<Rightarrow> int" where
  "compFGroupKey fid pFGroup = sint (fid - fileId pFGroup)"

definition compFGroup :: "SFileGroup \<Rightarrow> SFileGroup \<Rightarrow> int" where
  "compFGroup arg1 arg2 = sint (fileId arg1 - fileId arg2)"

text \<open>
  The C library's \<^verbatim>\<open>bsearch\<close>, as the usual halving loop over \<open>[l, u)\<close>, and
  \<^verbatim>\<open>qsort\<close>, as an insertion sort driven by the comparison function; the result of both
  is the index or the array.
\<close>

function bsearch_loop :: "('k \<Rightarrow> 'a \<Rightarrow> int) \<Rightarrow> 'k \<Rightarrow> 'a list \<Rightarrow> nat \<Rightarrow> nat \<Rightarrow> nat option" where
  "bsearch_loop cmp key base l u =
     (if l < u then
        (let idx = (l + u) div 2; c = cmp key (base ! idx) in
         if c < 0 then bsearch_loop cmp key base l idx
         else if c > 0 then bsearch_loop cmp key base (idx + 1) u
         else Some idx)
      else None)"
  by pat_completeness auto
termination
  by (relation "measure (\<lambda>(cmp, key, base, l, u). u - l)") auto

definition bsearch :: "('k \<Rightarrow> 'a \<Rightarrow> int) \<Rightarrow> 'k \<Rightarrow> 'a list \<Rightarrow> nat option" where
  "bsearch cmp key base = bsearch_loop cmp key base 0 (length base)"

fun qsort_insert :: "('a \<Rightarrow> 'a \<Rightarrow> int) \<Rightarrow> 'a \<Rightarrow> 'a list \<Rightarrow> 'a list" where
  "qsort_insert cmp x [] = [x]"
| "qsort_insert cmp x (y # ys) =
     (if cmp x y \<le> 0 then x # y # ys else y # qsort_insert cmp x ys)"

definition qsort :: "('a \<Rightarrow> 'a \<Rightarrow> int) \<Rightarrow> 'a list \<Rightarrow> 'a list" where
  "qsort cmp xs = foldr (qsort_insert cmp) xs []"

definition tsdbSearchFGroup :: "STsdbFileH \<Rightarrow> 32 word \<Rightarrow> nat option" where
  \<comment> \<open>the result is the index of the group in \<^verbatim>\<open>fGroup\<close>, \<open>None\<close> for \<^verbatim>\<open>NULL\<close>\<close>
  "tsdbSearchFGroup pFileH fid =
     (if numOfFGroups pFileH = 0
         \<or> sint fid < sint (fileId (fGroup pFileH ! 0))
         \<or> sint fid > sint (fileId (fGroup pFileH ! (length (fGroup pFileH) - 1)))
      then None
      else bsearch compFGroupKey fid (fGroup pFileH))"

text \<open>
  The loop of \<^verbatim>\<open>tsdbCreateFGroup\<close> over the file types: it stops at the first file that
  cannot be created and leaves the earlier ones on disk. Only the head file gets the
  index region (\<^verbatim>\<open>writeHeader\<close> is \<^verbatim>\<open>type == TSDB_FILE_TYPE_HEAD\<close>), and every file is
  closed again (\<^verbatim>\<open>toClose\<close> is 1).
\<close>

fun create_files ::
  "fhdr \<Rightarrow> string \<Rightarrow> 32 word \<Rightarrow> 32 word \<Rightarrow> nat \<Rightarrow> string list \<Rightarrow> SFile list \<Rightarrow> fsys
     \<Rightarrow> int \<times> SFile list \<times> fsys" where
  "create_files H dataDir fid nTables type [] acc fs = (0, acc, fs)"
| "create_files H dataDir fid nTables type (suffix # rest) acc fs =
     (let (r, f, fs') = tsdbCreateFile H dataDir fid suffix nTables (type = 0) True fs in
      if r < 0 then (- 1, acc, fs')
      else create_files H dataDir fid nTables (Suc type) rest (acc @ [f]) fs')"

definition tsdbCreateFGroup ::
  "fhdr \<Rightarrow> STsdbFileH \<Rightarrow> string \<Rightarrow> 32 word \<Rightarrow> 32 word \<Rightarrow> fsys \<Rightarrow> int \<times> STsdbFileH \<times> fsys" where
  "tsdbCreateFGroup H pFileH dataDir fid nTables fs =
     (if numOfFGroups pFileH \<ge> maxFGroups pFileH then (- 1, pFileH, fs)
      else if tsdbSearchFGroup pFileH fid = None then
        (let (r, fl, fs') = create_files H dataDir fid nTables 0 tsdbFileSuffix [] fs in
         if r < 0 then (- 1, pFileH, fs')
         else (0,
               pFileH\<lparr>fGroup := qsort compFGroup (fGroup pFileH @ [\<lparr>fileId = fid, files = fl\<rparr>])\<rparr>,
               fs'))
      else (0, pFileH, fs))"

text \<open>
  \<^verbatim>\<open>tsdbOpenFilesForCommit\<close> opens the three files of the group read-write, ignoring the
  result of each \<^verbatim>\<open>tsdbOpenFile\<close>, and returns the group (here its index).
\<close>

fun open_files :: "fhdr \<Rightarrow> SFile list \<Rightarrow> fsys \<Rightarrow> SFile list \<times> fsys" where
  "open_files H [] fs = ([], fs)"
| "open_files H (f # rest) fs =
     (let (_, f', fs1) = tsdbOpenFile H f O_RDWR False fs;
          (rest', fs2) = open_files H rest fs1
      in (f' # rest', fs2))"

definition tsdbOpenFilesForCommit ::
  "fhdr \<Rightarrow> STsdbFileH \<Rightarrow> 32 word \<Rightarrow> fsys \<Rightarrow> nat option \<times> STsdbFileH \<times> fsys" where
  "tsdbOpenFilesForCommit H pFileH fid fs =
     (case tsdbSearchFGroup pFileH fid of
        None \<Rightarrow> (None, pFileH, fs)
      | Some i \<Rightarrow>
          let g = fGroup pFileH ! i;
              (fl, fs') = open_files H (files g) fs
          in (Some i, pFileH\<lparr>fGroup := (fGroup pFileH)[i := g\<lparr>files := fl\<rparr>]\<rparr>, fs'))"


text \<open>
  \<^verbatim>\<open>tsdbGetKeyRangeOfFileId\<close>: \<^verbatim>\<open>fileId * daysPerFile\<close> is a product of two \<^verbatim>\<open>int32_t\<close>
  and wraps at 32 bits before it is widened and multiplied by the 64-bit table entry
  \<^verbatim>\<open>tsMsPerDay[precision]\<close>. The table is defined outside the sources and is a parameter.
\<close>

definition tsdbGetKeyRangeOfFileId ::
  "(8 word \<Rightarrow> 64 word) \<Rightarrow> 32 word \<Rightarrow> 8 word \<Rightarrow> 32 word \<Rightarrow> 64 word \<times> 64 word" where
  "tsdbGetKeyRangeOfFileId tsMsPerDay days prec fid =
     (let minKey = scast (fid * days) * tsMsPerDay prec;
          maxKey = minKey + scast days * tsMsPerDay prec - 1
      in (minKey, maxKey))"

subsection \<open>Notions used to state the properties of the file layer\<close>

text \<open>
  File ids whose differences fit in an \<^verbatim>\<open>int\<close>: on them the comparison functions
  order by file id. The key of a group is its file id as an integer.
\<close>

definition fid_small :: "32 word \<Rightarrow> bool" where
  "fid_small f \<longleftrightarrow> - (2 ^ 30) \<le> sint f \<and> sint f < 2 ^ 30"

definition fkey :: "SFileGroup \<Rightarrow> int" where
  "fkey g = sint (fileId g)"

text \<open>
  What the code relies on from \<^verbatim>\<open>TSDB_IS_FILE_OPENED\<close>: a file whose descriptor field is
  \<open>-1\<close> (as \<^verbatim>\<open>tsdbCreateFile\<close> and \<^verbatim>\<open>tsdbCloseFile\<close> set it) is not opened, and one
  holding a descriptor that \<^verbatim>\<open>open\<close> returned is.
\<close>

definition fhdr_ok :: "fhdr \<Rightarrow> bool" where
  "fhdr_ok H \<longleftrightarrow> \<not> TSDB_IS_FILE_OPENED H (- 1) \<and> (\<forall>d. 0 \<le> d \<longrightarrow> TSDB_IS_FILE_OPENED H d)"

text \<open>
  A file can be created: no file of that name exists, the environment lets the process
  open and write it, and for a head file the size of the index region is not negative.
\<close>

definition creatable :: "fhdr \<Rightarrow> fsys \<Rightarrow> string \<Rightarrow> bool \<Rightarrow> 32 word \<Rightarrow> bool" where
  "creatable H fs name writeHeader nTables \<longleftrightarrow>
     disk fs name = None \<and> name \<notin> deny_open fs \<and> name \<notin> deny_write fs \<and>
     (writeHeader \<longrightarrow> 0 \<le> idx_region_size H nTables)"

text \<open>
  The number of bytes of a file that \<^verbatim>\<open>tsdbCreateFile\<close> has created: the index region
  written behind the place of the header (if any of it was transferred), then the header.
\<close>

definition file_len_created :: "fhdr \<Rightarrow> bool \<Rightarrow> 32 word \<Rightarrow> nat" where
  "file_len_created H writeHeader nTables =
     (let k = (if writeHeader then min (MAX_RW_COUNT H) (nat (idx_region_size H nTables)) else 0)
      in max (if k = 0 then 0 else TSDB_FILE_HEAD_SIZE H + k)
             (min (MAX_RW_COUNT H) (TSDB_FILE_HEAD_SIZE H)))"




definition group_creatable :: "fhdr \<Rightarrow> fsys \<Rightarrow> string \<Rightarrow> 32 word \<Rightarrow> 32 word \<Rightarrow> bool" where
  \<comment> \<open>the three files of a new group can be created; only the head file gets the index\<close>
  "group_creatable H fs dataDir fid nTables \<longleftrightarrow>
     creatable H fs (tsdbGetFileName dataDir fid ''.head'') True nTables \<and>
     creatable H fs (tsdbGetFileName dataDir fid ''.data'') False nTables \<and>
     creatable H fs (tsdbGetFileName dataDir fid ''.last'') False nTables"

subsection \<open>Rows, memtables, tables and the cache\<close>

text \<open>
  A row is a record \<open>{length, timestamp, payload}\<close>; \<^verbatim>\<open>dataRowLen\<close> and \<^verbatim>\<open>dataRowKey\<close> read
  the first two. \<^verbatim>\<open>TSKEY\<close> is a signed 64-bit integer.
\<close>

record SDataRow =
  dataRowLen :: "32 word"
  dataRowKey :: "64 word"
  dataRowBody :: "byte list"

record SMemTable =
  keyFirst :: "64 word"
  keyLast :: "64 word"
  numOfPoints :: "32 word"
  pData :: "SDataRow list"

record STable =
  uid :: "64 word"
  tid :: "32 word"
  mem :: "SMemTable option"
  imem :: "SMemTable option"

text \<open>
  \<^verbatim>\<open>STsdbMeta\<close>: the array \<^verbatim>\<open>tables\<close>, one slot per table id; \<open>None\<close> is a \<^verbatim>\<open>NULL\<close> slot.
\<close>

record STsdbMeta =
  tables :: "STable option list"

definition INT64_MAX :: "64 word" where
  "INT64_MAX = 9223372036854775807"

text \<open>
  Modelled from the spec: the skiplist (\<^verbatim>\<open>tskiplist.c\<close>) is not part of the sources. The
  specification describes the memtable as ordered by timestamp, where a row with a
  timestamp already present replaces the row that was there. The list holds the rows
  in key order.
\<close>

fun tSkipListPut :: "SDataRow list \<Rightarrow> SDataRow \<Rightarrow> SDataRow list" where
  "tSkipListPut [] r = [r]"
| "tSkipListPut (x # xs) r =
     (if sint (dataRowKey r) < sint (dataRowKey x) then r # x # xs
      else if dataRowKey r = dataRowKey x then r # xs
      else x # tSkipListPut xs r)"

definition tSkipListGetSize :: "SDataRow list \<Rightarrow> 32 word" where
  "tSkipListGetSize sl = word_of_nat (length sl)"

text \<open>
  Modelled from the spec: the cache (\<^verbatim>\<open>tsdbCache.c\<close>) is not part of the sources. The
  specification describes an arena of fixed-size blocks with an active generation
  \<open>mem\<close> and a frozen generation \<open>imem\<close>; an allocation takes a region of the current
  block, or a new block from the pool when the current one is full, and fails when the
  pool is empty (\<open>CACHE_FULL\<close>) or the request is larger than a block. A generation
  records its first and last key, its number of points and how many blocks it holds.
\<close>

record SCacheMem =
  cm_keyFirst :: "64 word"
  cm_keyLast :: "64 word"
  cm_numOfPoints :: "64 word"
  cm_blocks :: nat

record STsdbCacheBlock =
  blk_offset :: nat
  blk_remain :: nat

record STsdbCache =
  cacheBlockSize :: nat
  memPool :: nat
  curBlock :: "STsdbCacheBlock option"
  cmem :: "SCacheMem option"
  cimem :: "SCacheMem option"

definition cache_note_key :: "SCacheMem option \<Rightarrow> 64 word \<Rightarrow> nat \<Rightarrow> SCacheMem" where
  "cache_note_key g key newBlocks =
     (case g of
        None \<Rightarrow> \<lparr>cm_keyFirst = key, cm_keyLast = key, cm_numOfPoints = 1, cm_blocks = newBlocks\<rparr>
      | Some m \<Rightarrow>
          \<lparr>cm_keyFirst = (if sint key < sint (cm_keyFirst m) then key else cm_keyFirst m),
           cm_keyLast = (if sint key > sint (cm_keyLast m) then key else cm_keyLast m),
           cm_numOfPoints = cm_numOfPoints m + 1,
           cm_blocks = cm_blocks m + newBlocks\<rparr>)"

definition tsdbAllocFromCache :: "STsdbCache \<Rightarrow> int \<Rightarrow> 64 word \<Rightarrow> nat option \<times> STsdbCache" where
  \<comment> \<open>the result is the offset of the region in its block, \<open>None\<close> for \<^verbatim>\<open>NULL\<close>\<close>
  "tsdbAllocFromCache pCache bytes key =
     (if bytes < 0 \<or> nat bytes > cacheBlockSize pCache then (None, pCache)
      else
        (case (case curBlock pCache of
                 None \<Rightarrow> None
               | Some b \<Rightarrow> if blk_remain b < nat bytes then None else Some b) of
           Some b \<Rightarrow>
             (Some (blk_offset b),
              pCache\<lparr>curBlock := Some \<lparr>blk_offset = blk_offset b + nat bytes,
                                        blk_remain = blk_remain b - nat bytes\<rparr>,
                     cmem := Some (cache_note_key (cmem pCache) key 0)\<rparr>)
         | None \<Rightarrow>
             if memPool pCache = 0 then (None, pCache)
             else
               (Some 0,
                pCache\<lparr>memPool := memPool pCache - 1,
                       curBlock := Some \<lparr>blk_offset = nat bytes,
                                          blk_remain = cacheBlockSize pCache - nat bytes\<rparr>,
                       cmem := Some (cache_note_key (cmem pCache) key 1)\<rparr>)))"

subsection \<open>The repository (\<^verbatim>\<open>tsdbMain.c\<close>)\<close>

datatype repo_state =
  TSDB_REPO_STATE_ACTIVE | TSDB_REPO_STATE_CLOSED | TSDB_REPO_STATE_CONFIGURING

text \<open>
  What a call does to mutexes and threads is recorded in a trace, in the order of the
  calls: \<^verbatim>\<open>pthread_mutex_lock\<close> and \<^verbatim>\<open>pthread_mutex_unlock\<close>, each with the object whose
  address it is given, and \<^verbatim>\<open>pthread_create\<close> of the commit task. The repository
  structure and its member \<^verbatim>\<open>mutex\<close> are two objects at two addresses: the structure
  begins with \<^verbatim>\<open>rootDir\<close>, the configuration and the handles, and the member \<^verbatim>\<open>mutex\<close>
  (the one \<^verbatim>\<open>pthread_mutex_init\<close> prepares when the repository is created) lies behind
  them.
\<close>

datatype mutex_ref = Repo_struct | Repo_mutex

datatype event = MutexLock mutex_ref | MutexUnlock mutex_ref | CommitThreadCreate

text \<open>
  The handles \<^verbatim>\<open>tsdbMeta\<close> and \<^verbatim>\<open>tsdbCache\<close> point to objects on the heap. The fields
  \<open>meta_freed\<close> and \<open>cache_freed\<close> tell that the object was released and the handle
  dangles; the record then still shows what the object held last. Reading or writing
  through a dangling handle is undefined behaviour: a function that does so has the
  result \<open>None\<close>.
\<close>

record STsdbRepo =
  rootDir :: string
  config :: STsdbCfg
  tsdbMeta :: STsdbMeta
  meta_freed :: bool
  tsdbCache :: STsdbCache
  cache_freed :: bool
  tsdbFileH :: STsdbFileH
  commit :: "32 word"
  state :: repo_state
  trace :: "event list"


text \<open>
  \<^verbatim>\<open>tsdbLockRepo\<close> and \<^verbatim>\<open>tsdbUnLockRepo\<close> hand the repository pointer itself to
  \<^verbatim>\<open>pthread_mutex_lock\<close> and \<^verbatim>\<open>pthread_mutex_unlock\<close>, not the address of the member
  \<^verbatim>\<open>mutex\<close>: \<^verbatim>\<open>return pthread_mutex_lock(repo);\<close>.
\<close>

definition tsdbLockRepo :: "STsdbRepo \<Rightarrow> STsdbRepo" where
  "tsdbLockRepo repo = repo\<lparr>trace := trace repo @ [MutexLock Repo_struct]\<rparr>"

definition tsdbUnLockRepo :: "STsdbRepo \<Rightarrow> STsdbRepo" where
  "tsdbUnLockRepo repo = repo\<lparr>trace := trace repo @ [MutexUnlock Repo_struct]\<rparr>"

definition pthread_create_commit :: "STsdbRepo \<Rightarrow> STsdbRepo" where
  "pthread_create_commit repo = repo\<lparr>trace := trace repo @ [CommitThreadCreate]\<rparr>"

text \<open>
  The loops \<^verbatim>\<open>for (int i = 0; i < maxTables; i++)\<close> over the slots of the meta array. A
  slot holding a table is rewritten by \<open>f\<close>; a \<^verbatim>\<open>NULL\<close> slot is skipped. An index
  beyond the array does not exist in a repository whose array has \<^verbatim>\<open>maxTables\<close> slots;
  the model leaves the array as it is there.
\<close>

function tables_loop ::
  "(STable \<Rightarrow> STable) \<Rightarrow> nat \<Rightarrow> nat \<Rightarrow> STable option list \<Rightarrow> STable option list" where
  "tables_loop f i n ts =
     (if i < n then
        tables_loop f (Suc i) n
          (if i < length ts then (case ts ! i of None \<Rightarrow> ts | Some t \<Rightarrow> ts[i := Some (f t)])
           else ts)
      else ts)"
  by pat_completeness auto
termination
  by (relation "measure (\<lambda>(f, i, n, ts). n - i)") auto

definition move_mem_to_imem :: "STable \<Rightarrow> STable" where
  \<comment> \<open>\<^verbatim>\<open>if (pTable->mem != NULL) { pTable->imem = pTable->mem; pTable->mem = NULL; }\<close>\<close>
  "move_mem_to_imem t = (case mem t of None \<Rightarrow> t | Some m \<Rightarrow> t\<lparr>imem := Some m, mem := None\<rparr>)"

definition clear_imem :: "STable \<Rightarrow> STable" where
  \<comment> \<open>\<^verbatim>\<open>if (pTable->imem) pTable->imem = NULL;\<close>\<close>
  "clear_imem t = (case imem t of None \<Rightarrow> t | Some m \<Rightarrow> t\<lparr>imem := None\<rparr>)"

text \<open>
  \<^verbatim>\<open>tsdbTriggerCommit\<close>. The loop reads the meta data when it runs at least once
  (\<^verbatim>\<open>maxTables > 0\<close>); the three assignments behind it write the cache.
\<close>

definition tsdbTriggerCommit :: "STsdbRepo \<Rightarrow> (int \<times> STsdbRepo) option" where
  "tsdbTriggerCommit repo =
     (let r1 = tsdbLockRepo repo in
      if commit r1 \<noteq> 0 then Some (- 1, tsdbUnLockRepo r1)
      else
        let r2 = r1\<lparr>commit := 1\<rparr> in
        if (0 < sint (maxTables (config r2)) \<and> meta_freed r2) \<or> cache_freed r2 then None
        else
          let r3 = r2\<lparr>tsdbMeta := (tsdbMeta r2)
                     \<lparr>tables := tables_loop move_mem_to_imem 0 (nat (sint (maxTables (config r2))))
                                   (tables (tsdbMeta r2))\<rparr>\<rparr>;
              r4 = r3\<lparr>tsdbCache := (tsdbCache r3)
                     \<lparr>cimem := cmem (tsdbCache r3), cmem := None, curBlock := None\<rparr>\<rparr>;
              r5 = pthread_create_commit r4
          in Some (0, tsdbUnLockRepo r5))"




subsection \<open>The commit task\<close>

text \<open>
  \<^verbatim>\<open>tsdbCreateTableIters\<close>: one iterator per table with a frozen memtable, placed on its
  first row. The result is \<open>Some None\<close> for \<^verbatim>\<open>NULL\<close> (an allocation failed, which the
  flag \<open>alloc_ok\<close> decides) and \<open>None\<close> when \<^verbatim>\<open>assert(false)\<close> stops the process on a
  frozen memtable without rows.
\<close>

definition table_iter :: "STable option \<Rightarrow> SDataRow list option" where
  "table_iter s = (case s of None \<Rightarrow> None | Some t \<Rightarrow> map_option pData (imem t))"

definition tsdbCreateTableIters ::
  "bool \<Rightarrow> STsdbMeta \<Rightarrow> 32 word \<Rightarrow> SDataRow list option list option option" where
  "tsdbCreateTableIters alloc_ok pMeta nTables =
     (if \<not> alloc_ok then Some None
      else let iters = map table_iter (take (nat (sint nTables)) (tables pMeta)) in
           if Some [] \<in> set iters then None else Some (Some iters))"

text \<open>
  The environment of the task: whether its two allocations succeed, and the loop over
  the file ids from \<^verbatim>\<open>tsdbGetKeyFileId(imem->keyFirst)\<close> to
  \<^verbatim>\<open>tsdbGetKeyFileId(imem->keyLast)\<close> that calls \<^verbatim>\<open>tsdbCommitToFile\<close>. That loop reads the
  iterators and works on the file directory and the files; it writes neither the commit
  flag nor the cache nor the tables, and its result is ignored. It is a parameter that
  yields the file directory afterwards.
\<close>

record commit_env =
  iters_alloc_ok :: bool
  cols_alloc_ok :: bool
  commit_to_files :: "STsdbRepo \<Rightarrow> SDataRow list option list \<Rightarrow> STsdbFileH"

definition tsdbCommitData :: "commit_env \<Rightarrow> STsdbRepo \<Rightarrow> STsdbRepo option" where
  \<comment> \<open>\<open>None\<close>: the process was stopped by the assertion, or the task read a freed
      object; \<open>Some r\<close>: the task returned and left the repository \<open>r\<close>. The cache is
      read first (\<^verbatim>\<open>pCache->imem\<close>); the meta data is read once the iterator array is
      allocated, by the loop of \<^verbatim>\<open>tsdbCreateTableIters\<close> or by \<^verbatim>\<open>pMeta->maxRowBytes\<close>.\<close>
  "tsdbCommitData E pRepo =
     (if cache_freed pRepo then None
      else case cimem (tsdbCache pRepo) of
        None \<Rightarrow> Some pRepo
      | Some im \<Rightarrow>
          (case (if iters_alloc_ok E \<and> meta_freed pRepo then None
                 else tsdbCreateTableIters (iters_alloc_ok E) (tsdbMeta pRepo)
                        (maxTables (config pRepo))) of
             None \<Rightarrow> None
           | Some None \<Rightarrow> Some pRepo
           | Some (Some iters) \<Rightarrow>
               if \<not> cols_alloc_ok E then Some pRepo
               else
                 let r1 = pRepo\<lparr>tsdbFileH := commit_to_files E pRepo iters\<rparr>;
                     r2 = tsdbLockRepo r1;
                     r3 = r2\<lparr>tsdbCache := (tsdbCache r2)
                            \<lparr>memPool := memPool (tsdbCache r2) + cm_blocks im, cimem := None\<rparr>\<rparr>;
                     r4 = r3\<lparr>commit := 0\<rparr>;
                     r5 = r4\<lparr>tsdbMeta := (tsdbMeta r4)
                            \<lparr>tables := tables_loop clear_imem 0 (nat (sint (maxTables (config r4))))
                                          (tables (tsdbMeta r4))\<rparr>\<rparr>
                 in Some (tsdbUnLockRepo r5)))"

subsection \<open>The insert path\<close>

text \<open>
  \<^verbatim>\<open>tSkipListRandNodeInfo\<close> draws the level of the new node and the size of its head;
  the generator is outside the sources and is the parameter \<open>rnd\<close>, a function of the
  skiplist. A result \<open>None\<close> of the functions below is undefined behaviour: the source
  goes on to write through the \<^verbatim>\<open>NULL\<close> that a failed allocation returned, reads
  behind the end of the message, or reads the meta data, a table or the cache after
  they were freed. The table handed to \<^verbatim>\<open>tdInsertRowToTable\<close> belongs to the meta data.
\<close>

definition new_memtable :: SMemTable where
  \<comment> \<open>\<^verbatim>\<open>calloc\<close>, then \<^verbatim>\<open>keyFirst = INT64_MAX; keyLast = 0;\<close>\<close>
  "new_memtable = \<lparr>keyFirst = INT64_MAX, keyLast = 0, numOfPoints = 0, pData = []\<rparr>"

definition ensure_mem :: "STable \<Rightarrow> STable" where
  \<comment> \<open>\<^verbatim>\<open>if (pTable->mem == NULL) { ... }\<close>\<close>
  "ensure_mem t = (case mem t of None \<Rightarrow> t\<lparr>mem := Some new_memtable\<rparr> | Some m \<Rightarrow> t)"

definition put_row :: "SMemTable \<Rightarrow> SDataRow \<Rightarrow> SMemTable" where
  \<comment> \<open>\<^verbatim>\<open>tSkipListPut\<close> and the three updates after it\<close>
  "put_row m row =
     (let key = dataRowKey row;
          m1 = m\<lparr>pData := tSkipListPut (pData m) row\<rparr>;
          m2 = (if sint key > sint (keyLast m1) then m1\<lparr>keyLast := key\<rparr> else m1);
          m3 = (if sint key < sint (keyFirst m2) then m2\<lparr>keyFirst := key\<rparr> else m2)
      in m3\<lparr>numOfPoints := tSkipListGetSize (pData m3)\<rparr>)"

definition tdInsertRowToTable ::
  "(SDataRow list \<Rightarrow> 32 word \<times> int) \<Rightarrow> STsdbRepo \<Rightarrow> SDataRow \<Rightarrow> STable \<Rightarrow> (int \<times> STsdbRepo \<times> STable) option" where
  "tdInsertRowToTable rnd pRepo row pTable =
     (if meta_freed pRepo \<or> cache_freed pRepo then None
      else
        let t1 = ensure_mem pTable;
            (level, headSize) = rnd (pData (the (mem t1)));
            key = dataRowKey row;
            (pNode, cache') = tsdbAllocFromCache (tsdbCache pRepo) (headSize + sint (dataRowLen row)) key;
            repo' = pRepo\<lparr>tsdbCache := cache'\<rparr>
        in case pNode of
             None \<Rightarrow> None
           | Some _ \<Rightarrow>
               let t2 = ensure_mem t1
               in Some (0, repo', t2\<lparr>mem := Some (put_row (the (mem t2)) row)\<rparr>))"


text \<open>
  A submit message: a header and the submit blocks behind it, each with its rows. The
  fields of the header and of a block arrive in network byte order and are converted in
  place (\<^verbatim>\<open>htonl\<close>, \<^verbatim>\<open>htons\<close>, \<^verbatim>\<open>htobe64\<close> on a little-endian host: the bytes reversed).
  A pointer into the message is the list of what lies from there on; \<open>None\<close> is
  \<^verbatim>\<open>NULL\<close>. The sizes \<^verbatim>\<open>TSDB_SUBMIT_MSG_HEAD_SIZE\<close> and \<^verbatim>\<open>sizeof(SSubmitBlk)\<close> come from a
  header outside the sources and are parameters.
\<close>

record SSubmitBlk =
  blk_len :: "32 word"
  blk_numOfRows :: "16 word"
  blk_uid :: "64 word"
  blk_tid :: "32 word"
  blk_sversion :: "32 word"
  blk_padding :: "32 word"
  blk_data :: "SDataRow list"

record SSubmitMsg =
  msg_length :: "32 word"
  msg_numOfBlocks :: "32 word"
  msg_compressed :: "32 word"
  msg_blocks :: "SSubmitBlk list"

record msg_sizes =
  TSDB_SUBMIT_MSG_HEAD_SIZE :: "32 word"
  sizeof_SSubmitBlk :: "32 word"

definition htons :: "16 word \<Rightarrow> 16 word" where
  "htons x = or (push_bit 8 x) (drop_bit 8 x)"

definition htonl :: "32 word \<Rightarrow> 32 word" where
  "htonl x =
     or (or (push_bit 24 x) (push_bit 8 (and x 65280)))
        (or (and (drop_bit 8 x) 65280) (drop_bit 24 x))"

definition htobe64 :: "64 word \<Rightarrow> 64 word" where
  "htobe64 x =
     or (push_bit 32 (ucast (htonl (ucast x)) :: 64 word))
        (ucast (htonl (ucast (drop_bit 32 x))))"













subsection \<open>Concrete inputs\<close>

text \<open>
  A small repository used where a statement is evaluated on a concrete input: ten table
  slots (the smallest \<^verbatim>\<open>maxTables\<close> the configuration check accepts), one table in slot 0.
\<close>

definition cfg_ten :: STsdbCfg where
  "cfg_ten = \<lparr>precision = 0, tsdbId = 0, maxTables = 10, daysPerFile = 10,
              minRowsPerFileBlock = 100, maxRowsPerFileBlock = 4096, keep = 3650,
              maxCacheSize = 16777216\<rparr>"

definition row_at :: "64 word \<Rightarrow> SDataRow" where
  \<comment> \<open>a row of 16 bytes with the given timestamp\<close>
  "row_at k = \<lparr>dataRowLen = 16, dataRowKey = k, dataRowBody = [0, 0, 0, 0]\<rparr>"

definition table_empty :: STable where
  "table_empty = \<lparr>uid = 42, tid = 0, mem = None, imem = None\<rparr>"

definition table_one_row :: STable where
  "table_one_row =
     \<lparr>uid = 42, tid = 0,
      mem = Some \<lparr>keyFirst = 5, keyLast = 5, numOfPoints = 1, pData = [row_at 5]\<rparr>,
      imem = None\<rparr>"

definition slots :: "STable \<Rightarrow> STable option list" where
  "slots t = [Some t, None, None, None, None, None, None, None, None, None]"

definition repo_idle :: STsdbRepo where
  \<comment> \<open>nothing inserted since the last freeze: no active memtable, no active generation\<close>
  "repo_idle =
     \<lparr>rootDir = ''/tsdb'', config = cfg_ten,
      tsdbMeta = \<lparr>tables = slots table_empty\<rparr>, meta_freed = False,
      tsdbCache = \<lparr>cacheBlockSize = 1048576, memPool = 16, curBlock = None,
                   cmem = None, cimem = None\<rparr>,
      cache_freed = False,
      tsdbFileH = \<lparr>maxFGroups = 10, fGroup = []\<rparr>,
      commit = 0, state = TSDB_REPO_STATE_ACTIVE, trace = []\<rparr>"

definition repo_one_row :: STsdbRepo where
  \<comment> \<open>one row at timestamp 5 inserted into the table of slot 0\<close>
  "repo_one_row =
     repo_idle
       \<lparr>tsdbMeta := \<lparr>tables = slots table_one_row\<rparr>,
        tsdbCache := \<lparr>cacheBlockSize = 1048576, memPool = 15,
                      curBlock = Some \<lparr>blk_offset = 32, blk_remain = 1048544\<rparr>,
                      cmem = Some \<lparr>cm_keyFirst = 5, cm_keyLast = 5, cm_numOfPoints = 1,
                                   cm_blocks = 1\<rparr>,
                      cimem = None\<rparr>\<rparr>"

definition env_ok :: commit_env where
  \<comment> \<open>both allocations of the commit task succeed; the file loop leaves the directory\<close>
  "env_ok = \<lparr>iters_alloc_ok = True, cols_alloc_ok = True,
             commit_to_files = (\<lambda>r iters. tsdbFileH r)\<rparr>"

definition rnd_one :: "SDataRow list \<Rightarrow> 32 word \<times> int" where
  \<comment> \<open>every node gets level 1 and a head of 16 bytes\<close>
  "rnd_one sl = (1, 16)"

definition sizes_std :: msg_sizes where
  "sizes_std = \<lparr>TSDB_SUBMIT_MSG_HEAD_SIZE = 12, sizeof_SSubmitBlk = 28\<rparr>"

definition msg_one_row :: SSubmitMsg where
  \<comment> \<open>one block for table \<open>(uid 42, tid 0)\<close> with one row at timestamp 7; the header
      fields are in network byte order, as a client sends them\<close>
  "msg_one_row =
     \<lparr>msg_length = htonl 56, msg_numOfBlocks = htonl 1, msg_compressed = htonl 0,
      msg_blocks =
        [\<lparr>blk_len = htonl 16, blk_numOfRows = htons 1, blk_uid = htobe64 42,
          blk_tid = htonl 0, blk_sversion = htonl 0, blk_padding = htonl 0,
          blk_data = [row_at 7]\<rparr>]\<rparr>"

definition msg_empty :: SSubmitMsg where
  \<comment> \<open>a message that holds no block: its length is that of the message head\<close>
  "msg_empty =
     \<lparr>msg_length = htonl 12, msg_numOfBlocks = htonl 0, msg_compressed = htonl 0,
      msg_blocks = []\<rparr>"

definition repo_closed :: STsdbRepo where
  \<comment> \<open>the repository with one row, as \<^verbatim>\<open>tsdbCloseRepo\<close> leaves it\<close>
  "repo_closed =
     repo_one_row\<lparr>state := TSDB_REPO_STATE_CLOSED, meta_freed := True, cache_freed := True\<rparr>"

text \<open>
  Inputs of the file layer: a header of 512 bytes, index entries of 24 bytes and the
  transfer bound of Linux (\<^verbatim>\<open>0x7ffff000\<close>); an empty file system and one with a leftover
  head file; an empty file directory, one with the two groups 3 and 9, and one that is
  full (ten groups, file ids 0 to 9), each group as \<^verbatim>\<open>tsdbCreateFGroup\<close> leaves it.
\<close>

definition fhdr_std :: fhdr where
  "fhdr_std = \<lparr>TSDB_FILE_HEAD_SIZE = 512, sizeof_SCompIdx = 24,
               TSDB_IS_FILE_OPENED = (\<lambda>d. d \<noteq> - 1), MAX_RW_COUNT = 2147479552\<rparr>"

definition fs_empty :: fsys where
  "fs_empty = \<lparr>disk = Map.empty, fdt = [], deny_open = {}, deny_write = {}\<rparr>"

definition fs_leftover :: fsys where
  "fs_leftover = \<lparr>disk = [''/tsdb/data/f7.head'' \<mapsto> [1, 2, 3]], fdt = [],
                  deny_open = {}, deny_write = {}\<rparr>"

definition group_of :: "32 word \<Rightarrow> SFileGroup" where
  "group_of fid =
     \<lparr>fileId = fid,
      files = [\<lparr>fname = tsdbGetFileName ''/tsdb/data'' fid ''.head'', fd = - 1, fsize = 752\<rparr>,
               \<lparr>fname = tsdbGetFileName ''/tsdb/data'' fid ''.data'', fd = - 1, fsize = 512\<rparr>,
               \<lparr>fname = tsdbGetFileName ''/tsdb/data'' fid ''.last'', fd = - 1, fsize = 512\<rparr>]\<rparr>"

definition dir_empty :: STsdbFileH where
  "dir_empty = \<lparr>maxFGroups = 10, fGroup = []\<rparr>"

definition dir_full :: STsdbFileH where
  "dir_full = \<lparr>maxFGroups = 10, fGroup = map group_of [0, 1, 2, 3, 4, 5, 6, 7, 8, 9]\<rparr>"

definition dir_two :: STsdbFileH where
  "dir_two = \<lparr>maxFGroups = 10, fGroup = map group_of [3, 9]\<rparr>"

section \<open>Properties\<close>

subsection \<open>Configuration validation\<close>

lemmas cfg_macros =
  TSDB_MIN_TABLES_def TSDB_MAX_TABLES_def TSDB_DEFAULT_TABLES_def
  TSDB_DEFAULT_DAYS_PER_FILE_def TSDB_MIN_DAYS_PER_FILE_def TSDB_MAX_DAYS_PER_FILE_def
  TSDB_DEFAULT_MIN_ROW_FBLOCK_def TSDB_MIN_MIN_ROW_FBLOCK_def TSDB_MAX_MIN_ROW_FBLOCK_def
  TSDB_DEFAULT_MAX_ROW_FBLOCK_def TSDB_MIN_MAX_ROW_FBLOCK_def TSDB_MAX_MAX_ROW_FBLOCK_def
  TSDB_DEFAULT_KEEP_def TSDB_MIN_KEEP_def TSDB_MAX_KEEP_def
  TSDB_DEFAULT_CACHE_SIZE_def TSDB_MIN_CACHE_SIZE_def TSDB_MAX_CACHE_SIZE_def

lemmas cfg_steps = cfg_precision_def cfg_tsdbId_def cfg_maxTables_def cfg_daysPerFile_def
  cfg_minRows_def cfg_maxRows_def cfg_minLeMax_def cfg_keep_def cfg_maxCacheSize_def

lemma sint32_lt: "sint (w :: 32 word) \<le> 2147483647"
  using sint_lt [of w] by simp

lemma cfg_step1:
  "fst (cfg_precision pMILLI pNANO c) =
     (if precision c = - 1 \<or> within (sint pMILLI) (sint pNANO) (sint (precision c)) then 0 else - 1)"
  "snd (cfg_precision pMILLI pNANO c) = c\<lparr>precision := (if precision c = - 1 then pMILLI else precision c)\<rparr>"
  by (auto simp: cfg_precision_def IS_VALID_PRECISION_def within_def)

lemma cfg_step2:
  "fst (cfg_tsdbId c) = (if 0 \<le> sint (tsdbId c) then 0 else - 1)" "snd (cfg_tsdbId c) = c"
  by (auto simp: cfg_tsdbId_def)

lemma cfg_step3:
  "fst (cfg_maxTables c) = (if maxTables c = - 1 \<or> within 10 100000 (sint (maxTables c)) then 0 else - 1)"
  "snd (cfg_maxTables c) = c\<lparr>maxTables := (if maxTables c = - 1 then 1000 else maxTables c)\<rparr>"
  by (auto simp: cfg_maxTables_def within_def cfg_macros)

lemma cfg_step4:
  "fst (cfg_daysPerFile c) = (if daysPerFile c = - 1 \<or> within 1 60 (sint (daysPerFile c)) then 0 else - 1)"
  "snd (cfg_daysPerFile c) = c\<lparr>daysPerFile := (if daysPerFile c = - 1 then 10 else daysPerFile c)\<rparr>"
  by (auto simp: cfg_daysPerFile_def within_def cfg_macros)

lemma cfg_step5:
  "fst (cfg_minRows c) = (if minRowsPerFileBlock c = - 1 \<or> within 10 1000 (sint (minRowsPerFileBlock c)) then 0 else - 1)"
  "snd (cfg_minRows c) = c\<lparr>minRowsPerFileBlock := (if minRowsPerFileBlock c = - 1 then 100 else minRowsPerFileBlock c)\<rparr>"
  by (auto simp: cfg_minRows_def within_def cfg_macros)

lemma cfg_step6:
  "fst (cfg_maxRows c) = (if maxRowsPerFileBlock c = - 1 \<or> within 200 10000 (sint (maxRowsPerFileBlock c)) then 0 else - 1)"
  "snd (cfg_maxRows c) = c\<lparr>maxRowsPerFileBlock := (if maxRowsPerFileBlock c = - 1 then 4096 else maxRowsPerFileBlock c)\<rparr>"
  by (auto simp: cfg_maxRows_def within_def cfg_macros)

lemma cfg_step7:
  "fst (cfg_minLeMax c) = (if sint (minRowsPerFileBlock c) \<le> sint (maxRowsPerFileBlock c) then 0 else - 1)"
  "snd (cfg_minLeMax c) = c"
  by (auto simp: cfg_minLeMax_def)

lemma cfg_step8:
  "fst (cfg_keep c) = (if keep c = - 1 \<or> 1 \<le> sint (keep c) then 0 else - 1)"
  "snd (cfg_keep c) = c\<lparr>keep := (if keep c = - 1 then 3650 else keep c)\<rparr>"
  using sint32_lt [of "keep c"] by (auto simp: cfg_keep_def cfg_macros)

lemma cfg_step9:
  "fst (cfg_maxCacheSize c) = (if maxCacheSize c = - 1 \<or> within 4194304 1073741824 (sint (maxCacheSize c)) then 0 else - 1)"
  "snd (cfg_maxCacheSize c) = c\<lparr>maxCacheSize := (if maxCacheSize c = - 1 then 16777216 else maxCacheSize c)\<rparr>"
  by (auto simp: cfg_maxCacheSize_def within_def cfg_macros)

text \<open>One block of the chain, given a summary of the blocks before it.\<close>

lemma and_then_chain:
  assumes "fst r = (if P then 0 else - 1)" and "P \<Longrightarrow> snd r = d"
    and "fst (f d) = (if Q then 0 else - 1)"
  shows "fst (and_then r f) = (if P \<and> Q then 0 else - 1)"
    and "P \<and> Q \<Longrightarrow> snd (and_then r f) = snd (f d)"
  using assms by (auto simp: and_then_def)

text \<open>
  Claim C6. \<^verbatim>\<open>tsdbCheckAndSetDefaultCfg\<close> returns 0 exactly when every field that is
  not the sentinel \<open>-1\<close> lies within its bounds, \<open>tsdbId\<close> is not negative and, with the
  defaults filled in, \<open>minRowsPerFileBlock \<le> maxRowsPerFileBlock\<close>; otherwise it returns
  \<open>-1\<close>. When it accepts, the configuration it leaves is the given one with every
  sentinel replaced by its default.
\<close>

theorem tsdbCheckAndSetDefaultCfg_accepts_iff_in_bounds:
  "fst (tsdbCheckAndSetDefaultCfg pMILLI pNANO c) = (if spec_cfg_ok pMILLI pNANO c then 0 else - 1)
   \<and> (spec_cfg_ok pMILLI pNANO c \<longrightarrow>
        snd (tsdbCheckAndSetDefaultCfg pMILLI pNANO c) = spec_defaults pMILLI c)"
proof -
  let ?P1 = "precision c = - 1 \<or> within (sint pMILLI) (sint pNANO) (sint (precision c))"
  let ?P2 = "0 \<le> sint (tsdbId c)"
  let ?P3 = "maxTables c = - 1 \<or> within 10 100000 (sint (maxTables c))"
  let ?P4 = "daysPerFile c = - 1 \<or> within 1 60 (sint (daysPerFile c))"
  let ?P5 = "minRowsPerFileBlock c = - 1 \<or> within 10 1000 (sint (minRowsPerFileBlock c))"
  let ?P6 = "maxRowsPerFileBlock c = - 1 \<or> within 200 10000 (sint (maxRowsPerFileBlock c))"
  let ?P7 = "sint (minRowsPerFileBlock (spec_defaults pMILLI c))
               \<le> sint (maxRowsPerFileBlock (spec_defaults pMILLI c))"
  let ?P8 = "keep c = - 1 \<or> 1 \<le> sint (keep c)"
  let ?P9 = "maxCacheSize c = - 1 \<or> within 4194304 1073741824 (sint (maxCacheSize c))"
  let ?d1 = "c\<lparr>precision := (if precision c = - 1 then pMILLI else precision c)\<rparr>"
  let ?d3 = "?d1\<lparr>maxTables := (if maxTables c = - 1 then 1000 else maxTables c)\<rparr>"
  let ?d4 = "?d3\<lparr>daysPerFile := (if daysPerFile c = - 1 then 10 else daysPerFile c)\<rparr>"
  let ?d5 = "?d4\<lparr>minRowsPerFileBlock := (if minRowsPerFileBlock c = - 1 then 100 else minRowsPerFileBlock c)\<rparr>"
  let ?d6 = "?d5\<lparr>maxRowsPerFileBlock := (if maxRowsPerFileBlock c = - 1 then 4096 else maxRowsPerFileBlock c)\<rparr>"
  let ?d8 = "?d6\<lparr>keep := (if keep c = - 1 then 3650 else keep c)\<rparr>"
  let ?d9 = "?d8\<lparr>maxCacheSize := (if maxCacheSize c = - 1 then 16777216 else maxCacheSize c)\<rparr>"
  let ?r1 = "cfg_precision pMILLI pNANO c"
  let ?r2 = "and_then ?r1 cfg_tsdbId"
  let ?r3 = "and_then ?r2 cfg_maxTables"
  let ?r4 = "and_then ?r3 cfg_daysPerFile"
  let ?r5 = "and_then ?r4 cfg_minRows"
  let ?r6 = "and_then ?r5 cfg_maxRows"
  let ?r7 = "and_then ?r6 cfg_minLeMax"
  let ?r8 = "and_then ?r7 cfg_keep"
  let ?r9 = "and_then ?r8 cfg_maxCacheSize"
  have f1: "fst ?r1 = (if ?P1 then 0 else - 1)" and s1: "snd ?r1 = ?d1"
    by (simp_all only: cfg_step1)
  have e2: "fst (cfg_tsdbId ?d1) = (if ?P2 then 0 else - 1)" "snd (cfg_tsdbId ?d1) = ?d1"
    by (simp_all add: cfg_step2)
  have f2: "fst ?r2 = (if ?P1 \<and> ?P2 then 0 else - 1)"
    and s2: "?P1 \<and> ?P2 \<Longrightarrow> snd ?r2 = ?d1"
    using and_then_chain [where f = cfg_tsdbId and d = "?d1", OF f1 s1 e2(1)] e2(2) by simp_all
  have e3: "fst (cfg_maxTables ?d1) = (if ?P3 then 0 else - 1)" "snd (cfg_maxTables ?d1) = ?d3"
    by (simp_all add: cfg_step3)
  have f3: "fst ?r3 = (if (?P1 \<and> ?P2) \<and> ?P3 then 0 else - 1)"
    and s3: "(?P1 \<and> ?P2) \<and> ?P3 \<Longrightarrow> snd ?r3 = ?d3"
    using and_then_chain [where f = cfg_maxTables and d = "?d1", OF f2 s2 e3(1)] e3(2) by simp_all
  have e4: "fst (cfg_daysPerFile ?d3) = (if ?P4 then 0 else - 1)" "snd (cfg_daysPerFile ?d3) = ?d4"
    by (simp_all add: cfg_step4)
  have f4: "fst ?r4 = (if ((?P1 \<and> ?P2) \<and> ?P3) \<and> ?P4 then 0 else - 1)"
    and s4: "((?P1 \<and> ?P2) \<and> ?P3) \<and> ?P4 \<Longrightarrow> snd ?r4 = ?d4"
    using and_then_chain [where f = cfg_daysPerFile and d = "?d3", OF f3 s3 e4(1)] e4(2) by simp_all
  have e5: "fst (cfg_minRows ?d4) = (if ?P5 then 0 else - 1)" "snd (cfg_minRows ?d4) = ?d5"
    by (simp_all add: cfg_step5)
  have f5: "fst ?r5 = (if (((?P1 \<and> ?P2) \<and> ?P3) \<and> ?P4) \<and> ?P5 then 0 else - 1)"
    and s5: "(((?P1 \<and> ?P2) \<and> ?P3) \<and> ?P4) \<and> ?P5 \<Longrightarrow> snd ?r5 = ?d5"
    using and_then_chain [where f = cfg_minRows and d = "?d4", OF f4 s4 e5(1)] e5(2) by simp_all
  have e6: "fst (cfg_maxRows ?d5) = (if ?P6 then 0 else - 1)" "snd (cfg_maxRows ?d5) = ?d6"
    by (simp_all add: cfg_step6)
  have f6: "fst ?r6 = (if ((((?P1 \<and> ?P2) \<and> ?P3) \<and> ?P4) \<and> ?P5) \<and> ?P6 then 0 else - 1)"
    and s6: "((((?P1 \<and> ?P2) \<and> ?P3) \<and> ?P4) \<and> ?P5) \<and> ?P6 \<Longrightarrow> snd ?r6 = ?d6"
    using and_then_chain [where f = cfg_maxRows and d = "?d5", OF f5 s5 e6(1)] e6(2) by simp_all
  have e7: "fst (cfg_minLeMax ?d6) = (if ?P7 then 0 else - 1)" "snd (cfg_minLeMax ?d6) = ?d6"
    by (simp_all add: cfg_step7 spec_defaults_def)
  have f7: "fst ?r7 = (if (((((?P1 \<and> ?P2) \<and> ?P3) \<and> ?P4) \<and> ?P5) \<and> ?P6) \<and> ?P7 then 0 else - 1)"
    and s7: "(((((?P1 \<and> ?P2) \<and> ?P3) \<and> ?P4) \<and> ?P5) \<and> ?P6) \<and> ?P7 \<Longrightarrow> snd ?r7 = ?d6"
    using and_then_chain [where f = cfg_minLeMax and d = "?d6", OF f6 s6 e7(1)] e7(2) by simp_all
  have e8: "fst (cfg_keep ?d6) = (if ?P8 then 0 else - 1)" "snd (cfg_keep ?d6) = ?d8"
    by (simp_all add: cfg_step8)
  have f8: "fst ?r8 = (if ((((((?P1 \<and> ?P2) \<and> ?P3) \<and> ?P4) \<and> ?P5) \<and> ?P6) \<and> ?P7) \<and> ?P8 then 0 else - 1)"
    and s8: "((((((?P1 \<and> ?P2) \<and> ?P3) \<and> ?P4) \<and> ?P5) \<and> ?P6) \<and> ?P7) \<and> ?P8 \<Longrightarrow> snd ?r8 = ?d8"
    using and_then_chain [where f = cfg_keep and d = "?d6", OF f7 s7 e8(1)] e8(2) by simp_all
  have e9: "fst (cfg_maxCacheSize ?d8) = (if ?P9 then 0 else - 1)" "snd (cfg_maxCacheSize ?d8) = ?d9"
    by (simp_all add: cfg_step9)
  have f9: "fst ?r9 = (if (((((((?P1 \<and> ?P2) \<and> ?P3) \<and> ?P4) \<and> ?P5) \<and> ?P6) \<and> ?P7) \<and> ?P8) \<and> ?P9 then 0 else - 1)"
    and s9: "(((((((?P1 \<and> ?P2) \<and> ?P3) \<and> ?P4) \<and> ?P5) \<and> ?P6) \<and> ?P7) \<and> ?P8) \<and> ?P9 \<Longrightarrow> snd ?r9 = ?d9"
    using and_then_chain [where f = cfg_maxCacheSize and d = "?d8", OF f8 s8 e9(1)] e9(2) by simp_all
  have ok: "spec_cfg_ok pMILLI pNANO c \<longleftrightarrow>
      (((((((?P1 \<and> ?P2) \<and> ?P3) \<and> ?P4) \<and> ?P5) \<and> ?P6) \<and> ?P7) \<and> ?P8) \<and> ?P9"
    unfolding spec_cfg_ok_def by blast
  have d: "?d9 = spec_defaults pMILLI c"
    by (simp add: spec_defaults_def)
  have r: "tsdbCheckAndSetDefaultCfg pMILLI pNANO c = ?r9"
    by (simp only: tsdbCheckAndSetDefaultCfg_def)
  show ?thesis
    unfolding r ok using f9 s9 d by simp
qed

theorem tsdbCheckAndSetDefaultCfg_accepts_iff_in_bounds_witness:
  "spec_cfg_ok 0 2
     \<lparr>precision = - 1, tsdbId = 0, maxTables = - 1, daysPerFile = - 1,
      minRowsPerFileBlock = - 1, maxRowsPerFileBlock = - 1, keep = - 1, maxCacheSize = - 1\<rparr>
   \<and> tsdbCheckAndSetDefaultCfg 0 2
     \<lparr>precision = - 1, tsdbId = 0, maxTables = - 1, daysPerFile = - 1,
      minRowsPerFileBlock = - 1, maxRowsPerFileBlock = - 1, keep = - 1, maxCacheSize = - 1\<rparr>
     = (0, \<lparr>precision = 0, tsdbId = 0, maxTables = 1000, daysPerFile = 10,
            minRowsPerFileBlock = 100, maxRowsPerFileBlock = 4096, keep = 3650,
            maxCacheSize = 16777216\<rparr>)"
proof -
  let ?c = "\<lparr>precision = - 1, tsdbId = 0, maxTables = - 1, daysPerFile = - 1,
      minRowsPerFileBlock = - 1, maxRowsPerFileBlock = - 1, keep = - 1,
      maxCacheSize = - 1 :: 64 word\<rparr>"
  have ok: "spec_cfg_ok 0 2 ?c"
    by (simp add: spec_cfg_ok_def spec_defaults_def within_def)
  from tsdbCheckAndSetDefaultCfg_accepts_iff_in_bounds [of 0 2 ?c] ok
  show ?thesis
    by (simp add: spec_defaults_def prod_eq_iff)
qed

subsection \<open>The loops over the table slots\<close>

declare tables_loop.simps [simp del]

lemmas input_defs = cfg_ten_def row_at_def table_empty_def table_one_row_def slots_def
  repo_idle_def repo_one_row_def env_ok_def rnd_one_def sizes_std_def msg_one_row_def
  msg_empty_def repo_closed_def

lemma tables_loop_length: "length (tables_loop f i n ts) = length ts"
proof (induction f i n ts rule: tables_loop.induct)
  case (1 f i n ts)
  show ?case
  proof (cases "i < n")
    case True
    then show ?thesis
      using "1.IH" [OF True] by (subst tables_loop.simps) (simp split: option.splits)
  next
    case False
    then show ?thesis by (subst tables_loop.simps) simp
  qed
qed

lemma tables_loop_nth:
  "j < length ts \<Longrightarrow>
   tables_loop f i n ts ! j = (if i \<le> j \<and> j < n then map_option f (ts ! j) else ts ! j)"
proof (induction f i n ts rule: tables_loop.induct)
  case (1 f i n ts)
  show ?case
  proof (cases "i < n")
    case True
    let ?ts' = "if i < length ts then (case ts ! i of None \<Rightarrow> ts | Some t \<Rightarrow> ts[i := Some (f t)]) else ts"
    have len: "length ?ts' = length ts" by (simp split: option.splits)
    have step: "tables_loop f i n ts = tables_loop f (Suc i) n ?ts'"
      using True by (subst tables_loop.simps) simp
    have ih: "tables_loop f (Suc i) n ?ts' ! j =
        (if Suc i \<le> j \<and> j < n then map_option f (?ts' ! j) else ?ts' ! j)"
      using "1.IH" [OF True] "1.prems" len by simp
    have at: "?ts' ! j = (if j = i then map_option f (ts ! j) else ts ! j)"
      using "1.prems" by (auto split: option.splits)
    show ?thesis
      unfolding step ih at using True by auto
  next
    case False
    then show ?thesis by (subst tables_loop.simps) auto
  qed
qed

text \<open>When the array has no more than \<open>n\<close> slots, the loop visits every slot.\<close>

lemma tables_loop_all:
  "length ts \<le> n \<Longrightarrow> tables_loop f 0 n ts = map (map_option f) ts"
  by (rule nth_equalityI) (simp_all add: tables_loop_length tables_loop_nth)

subsection \<open>Triggering a commit\<close>

text \<open>
  Claim C1 fails on the code. On the repository with one row and a clear commit flag,
  \<^verbatim>\<open>tsdbTriggerCommit\<close> returns 0 and freezes as the claim says: the flag is 1, the
  memtable of the table in slot 0 is its frozen memtable and its active one is \<^verbatim>\<open>NULL\<close>,
  the active generation of the cache is the frozen one. But the calls of
  \<^verbatim>\<open>pthread_mutex_lock\<close> and \<^verbatim>\<open>pthread_mutex_unlock\<close> around the freeze are given the
  repository structure, not its member \<^verbatim>\<open>mutex\<close>: the repository mutex is not locked at
  any point of the call, so the freeze does not happen under it.
\<close>

theorem tsdbTriggerCommit_freezes_without_repo_mutex:
  "map_option fst (tsdbTriggerCommit repo_one_row) = Some 0 \<and>
   map_option (\<lambda>(rc, r). commit r) (tsdbTriggerCommit repo_one_row) = Some 1 \<and>
   map_option (\<lambda>(rc, r). tables (tsdbMeta r) ! 0) (tsdbTriggerCommit repo_one_row)
     = Some (Some \<lparr>uid = 42, tid = 0, mem = None,
             imem = Some \<lparr>keyFirst = 5, keyLast = 5, numOfPoints = 1, pData = [row_at 5]\<rparr>\<rparr>) \<and>
   map_option (\<lambda>(rc, r). (cmem (tsdbCache r), cimem (tsdbCache r))) (tsdbTriggerCommit repo_one_row)
     = Some (None, Some \<lparr>cm_keyFirst = 5, cm_keyLast = 5, cm_numOfPoints = 1, cm_blocks = 1\<rparr>) \<and>
   map_option (\<lambda>(rc, r). trace r) (tsdbTriggerCommit repo_one_row)
     = Some [MutexLock Repo_struct, CommitThreadCreate, MutexUnlock Repo_struct] \<and>
   map_option (\<lambda>(rc, r). MutexLock Repo_mutex \<in> set (trace r)) (tsdbTriggerCommit repo_one_row)
     = Some False"
proof -
  have tl: "tables_loop move_mem_to_imem 0 10 (slots table_one_row)
      = map (map_option move_mem_to_imem) (slots table_one_row)"
    by (rule tables_loop_all) (simp add: slots_def)
  have t: "tsdbTriggerCommit repo_one_row =
      Some (0, repo_one_row
        \<lparr>commit := 1,
         tsdbMeta := \<lparr>tables = map (map_option move_mem_to_imem) (slots table_one_row)\<rparr>,
         tsdbCache := \<lparr>cacheBlockSize = 1048576, memPool = 15, curBlock = None, cmem = None,
                       cimem = Some \<lparr>cm_keyFirst = 5, cm_keyLast = 5, cm_numOfPoints = 1,
                                     cm_blocks = 1\<rparr>\<rparr>,
         trace := [MutexLock Repo_struct, CommitThreadCreate, MutexUnlock Repo_struct]\<rparr>)"
    using tl
    by (simp add: tsdbTriggerCommit_def tsdbLockRepo_def tsdbUnLockRepo_def
        pthread_create_commit_def Let_def repo_one_row_def repo_idle_def cfg_ten_def)
  show ?thesis
    unfolding t by (simp add: slots_def table_one_row_def move_mem_to_imem_def)
qed



subsection \<open>The commit task\<close>

text \<open>The paths of \<^verbatim>\<open>tsdbCommitData\<close>: the three early returns leave the repository
  untouched; the path through to the end clears the flag.\<close>

lemma tsdbCommitData_no_frozen_generation:
  "\<not> cache_freed pRepo \<Longrightarrow> cimem (tsdbCache pRepo) = None \<Longrightarrow> tsdbCommitData E pRepo = Some pRepo"
  by (simp add: tsdbCommitData_def)

lemma tsdbCommitData_alloc_failure:
  "\<not> iters_alloc_ok E \<or> \<not> cols_alloc_ok E \<Longrightarrow> tsdbCommitData E pRepo = Some r
     \<Longrightarrow> r = pRepo"
  by (auto simp: tsdbCommitData_def tsdbCreateTableIters_def Let_def
      split: option.splits if_splits)

lemma tsdbCommitData_full_path:
  "cimem (tsdbCache pRepo) \<noteq> None \<Longrightarrow> iters_alloc_ok E \<Longrightarrow> cols_alloc_ok E
     \<Longrightarrow> tsdbCommitData E pRepo = Some r \<Longrightarrow> commit r = 0"
  by (auto simp: tsdbCommitData_def tsdbCreateTableIters_def tsdbLockRepo_def
      tsdbUnLockRepo_def Let_def split: option.splits if_splits)

text \<open>
  Claim C2 fails on the code. Triggering a commit on a repository into which nothing
  was inserted since the last freeze leaves the frozen cache generation \<^verbatim>\<open>NULL\<close> and the
  flag at 1; the commit task then returns at its first test without clearing the flag,
  and the next \<^verbatim>\<open>tsdbTriggerCommit\<close> is rejected.
\<close>

theorem tsdbCommitData_empty_generation_keeps_flag:
  "map_option fst (tsdbTriggerCommit repo_idle) = Some 0 \<and>
   cimem (tsdbCache (snd (the (tsdbTriggerCommit repo_idle)))) = None \<and>
   tsdbCommitData env_ok (snd (the (tsdbTriggerCommit repo_idle)))
     = Some (snd (the (tsdbTriggerCommit repo_idle))) \<and>
   commit (snd (the (tsdbTriggerCommit repo_idle))) = 1 \<and>
   map_option fst (tsdbTriggerCommit (snd (the (tsdbTriggerCommit repo_idle)))) = Some (- 1)"
proof -
  have t: "tsdbTriggerCommit repo_idle =
      Some (0, repo_idle\<lparr>commit := 1,
                 trace := [MutexLock Repo_struct, CommitThreadCreate, MutexUnlock Repo_struct]\<rparr>)"
    by (simp add: tsdbTriggerCommit_def tsdbLockRepo_def tsdbUnLockRepo_def
        pthread_create_commit_def tables_loop.simps move_mem_to_imem_def Let_def input_defs)
  show ?thesis
    unfolding t
    by (simp add: tsdbCommitData_def tsdbTriggerCommit_def tsdbLockRepo_def
        tsdbUnLockRepo_def Let_def repo_idle_def)
qed

subsection \<open>Inserting rows\<close>

text \<open>
  Claim C5 fails on the code. A new memtable starts with \<^verbatim>\<open>keyLast = 0\<close>, so a first row
  with the timestamp \<open>-1\<close> leaves \<^verbatim>\<open>keyLast\<close> at 0, which is not the largest timestamp
  inserted; \<^verbatim>\<open>keyFirst\<close> is \<open>-1\<close>.
\<close>

theorem tdInsertRowToTable_negative_key_keyLast:
  "map_option (\<lambda>(rc, r, t). (rc, mem t))
     (tdInsertRowToTable rnd_one repo_idle (row_at (- 1)) table_empty)
   = Some (0, Some \<lparr>keyFirst = - 1, keyLast = 0, numOfPoints = 1, pData = [row_at (- 1)]\<rparr>)"
  by (simp add: tdInsertRowToTable_def ensure_mem_def new_memtable_def put_row_def
      tsdbAllocFromCache_def cache_note_key_def tSkipListGetSize_def INT64_MAX_def Let_def
      input_defs)














subsection \<open>Machine arithmetic\<close>

declare show_nat.simps [simp del]
declare bsearch_loop.simps [simp del]
declare create_files.simps [simp del]
declare open_files.simps [simp del]

lemmas file_input_defs = fhdr_std_def fs_empty_def fs_leftover_def group_of_def dir_empty_def
  dir_full_def

lemma sint_mult32:
  fixes a b :: "32 word"
  assumes "- (2 ^ 31) \<le> sint a * sint b" "sint a * sint b < 2 ^ 31"
  shows "sint (a * b) = sint a * sint b"
  using assms by (simp add: sint_word_ariths signed_take_bit_int_eq_self)

lemma sint_sub32:
  fixes a b :: "32 word"
  assumes "- (2 ^ 31) \<le> sint a - sint b" "sint a - sint b < 2 ^ 31"
  shows "sint (a - b) = sint a - sint b"
  using assms by (simp add: sint_word_ariths signed_take_bit_int_eq_self)

lemma sint_of_int64:
  assumes "- (2 ^ 63) \<le> k" "k < 2 ^ 63"
  shows "sint (word_of_int k :: 64 word) = k"
  using assms by (simp add: sint_sbintrunc' signed_take_bit_int_eq_self)

lemma div_window:
  fixes t d q :: int
  assumes "0 < d"
  shows "(q * d \<le> t \<and> t \<le> q * d + d - 1) \<longleftrightarrow> t div d = q"
proof
  assume a: "q * d \<le> t \<and> t \<le> q * d + d - 1"
  define r where "r = t - q * d"
  have r: "0 \<le> r" "r < d" using a by (simp_all add: r_def)
  have "t = q * d + r" by (simp add: r_def)
  then have "t div d = q + r div d" using assms by simp
  also have "r div d = 0" using r by simp
  finally show "t div d = q" by simp
next
  assume "t div d = q"
  then have t: "t = q * d + t mod d" using div_mult_mod_eq [of t d] by simp
  have "0 \<le> t mod d" "t mod d < d" using assms by simp_all
  then show "q * d \<le> t \<and> t \<le> q * d + d - 1" using t by linarith
qed


subsection \<open>The key range of a file id\<close>

text \<open>
  Claim C8, as the code has it. For a positive \<^verbatim>\<open>daysPerFile\<close> and a positive table entry
  \<open>u = tsMsPerDay[precision]\<close>, and as long as \<open>fid \<times> daysPerFile\<close> fits in 32 bits and
  the two keys fit in 64 bits, \<^verbatim>\<open>tsdbGetKeyRangeOfFileId\<close> returns
  \<open>minKey = fid \<times> daysPerFile \<times> u\<close> and \<open>maxKey = minKey + daysPerFile \<times> u - 1\<close>, and a
  timestamp \<open>t\<close> lies in \<open>[minKey, maxKey]\<close> exactly when
  \<open>floor (t / (daysPerFile \<times> u)) = fid\<close>.
\<close>

theorem tsdbGetKeyRangeOfFileId_exact:
  assumes days: "0 < sint days" and unit: "0 < sint (tsMsPerDay prec)"
    and lo32: "- (2 ^ 31) \<le> sint fid * sint days" and hi32: "sint fid * sint days < 2 ^ 31"
    and lo64: "- (2 ^ 63) \<le> sint fid * sint days * sint (tsMsPerDay prec)"
    and hi64: "sint fid * sint days * sint (tsMsPerDay prec)
                 + sint days * sint (tsMsPerDay prec) - 1 < 2 ^ 63"
  shows "sint (fst (tsdbGetKeyRangeOfFileId tsMsPerDay days prec fid))
           = sint fid * sint days * sint (tsMsPerDay prec) \<and>
         sint (snd (tsdbGetKeyRangeOfFileId tsMsPerDay days prec fid))
           = sint (fst (tsdbGetKeyRangeOfFileId tsMsPerDay days prec fid))
             + sint days * sint (tsMsPerDay prec) - 1 \<and>
         (\<forall>t :: int.
            (sint (fst (tsdbGetKeyRangeOfFileId tsMsPerDay days prec fid)) \<le> t
             \<and> t \<le> sint (snd (tsdbGetKeyRangeOfFileId tsMsPerDay days prec fid)))
            \<longleftrightarrow> t div (sint days * sint (tsMsPerDay prec)) = sint fid)"
proof -
  let ?u = "sint (tsMsPerDay prec)"
  let ?d = "sint days * ?u"
  let ?m = "sint fid * sint days * ?u"
  have d: "0 < ?d" using days unit by simp
  have p32: "sint (fid * days) = sint fid * sint days"
    using lo32 hi32 by (rule sint_mult32)
  have fst_eq: "fst (tsdbGetKeyRangeOfFileId tsMsPerDay days prec fid)
      = scast (fid * days) * tsMsPerDay prec"
    by (simp add: tsdbGetKeyRangeOfFileId_def Let_def)
  have snd_eq: "snd (tsdbGetKeyRangeOfFileId tsMsPerDay days prec fid)
      = fst (tsdbGetKeyRangeOfFileId tsMsPerDay days prec fid)
        + scast days * tsMsPerDay prec - 1"
    by (simp add: tsdbGetKeyRangeOfFileId_def Let_def)
  have "word_of_int ?m = word_of_int (sint (fid * days)) * (word_of_int ?u :: 64 word)"
    by (simp only: p32 wi_hom_mult)
  also have "\<dots> = scast (fid * days) * tsMsPerDay prec"
    by (simp only: of_int_sint scast_id)
  finally have minw: "fst (tsdbGetKeyRangeOfFileId tsMsPerDay days prec fid) = word_of_int ?m"
    by (simp only: fst_eq)
  have "word_of_int (?m + ?d - 1)
      = word_of_int ?m + word_of_int (sint days) * (word_of_int ?u :: 64 word) - word_of_int 1"
    by (simp only: wi_hom_mult wi_hom_add wi_hom_sub)
  also have "\<dots> = fst (tsdbGetKeyRangeOfFileId tsMsPerDay days prec fid)
        + scast days * tsMsPerDay prec - 1"
    by (simp only: minw of_int_sint scast_id word_of_int_1)
  finally have maxw:
    "snd (tsdbGetKeyRangeOfFileId tsMsPerDay days prec fid) = word_of_int (?m + ?d - 1)"
    by (simp only: snd_eq)
  have m_hi: "?m < 2 ^ 63" using hi64 d by linarith
  have M_lo: "- (2 ^ 63) \<le> ?m + ?d - 1" using lo64 d by linarith
  have smin: "sint (fst (tsdbGetKeyRangeOfFileId tsMsPerDay days prec fid)) = ?m"
    unfolding minw using lo64 m_hi by (rule sint_of_int64)
  have smax: "sint (snd (tsdbGetKeyRangeOfFileId tsMsPerDay days prec fid)) = ?m + ?d - 1"
    unfolding maxw using M_lo hi64 by (rule sint_of_int64)
  have win: "\<And>t. (?m \<le> t \<and> t \<le> ?m + ?d - 1) \<longleftrightarrow> t div ?d = sint fid"
    using div_window [OF d, of "sint fid"] by (simp add: mult.assoc)
  show ?thesis
    unfolding smin smax using win by simp
qed

theorem tsdbGetKeyRangeOfFileId_exact_witness:
  "0 < sint (10 :: 32 word) \<and> 0 < sint (86400000 :: 64 word) \<and>
   sint (fst (tsdbGetKeyRangeOfFileId (\<lambda>p. 86400000) 10 0 1968)) = 1700352000000 \<and>
   sint (snd (tsdbGetKeyRangeOfFileId (\<lambda>p. 86400000) 10 0 1968)) = 1701215999999 \<and>
   (1700352000000 :: int) div (sint (10 :: 32 word) * sint (86400000 :: 64 word)) = sint (1968 :: 32 word)"
  using tsdbGetKeyRangeOfFileId_exact [of 10 "\<lambda>p. 86400000" 0 1968]
  by simp

text \<open>
  The claim as stated, for every file id, fails: with 60 days per file and milliseconds,
  the product \<open>40000000 \<times> 60\<close> does not fit in 32 bits and wraps around before it is
  widened, although the exact \<open>minKey\<close> would fit in 64 bits.
\<close>

theorem tsdbGetKeyRangeOfFileId_wraps:
  "sint (fst (tsdbGetKeyRangeOfFileId (\<lambda>p. 86400000) 60 0 40000000)) = - 163725174374400000 \<and>
   sint (fst (tsdbGetKeyRangeOfFileId (\<lambda>p. 86400000) 60 0 40000000))
     \<noteq> sint (40000000 :: 32 word) * sint (60 :: 32 word) * sint (86400000 :: 64 word)"
  by (simp add: tsdbGetKeyRangeOfFileId_def Let_def)

subsection \<open>Searching and sorting the file directory\<close>

lemma compFGroupKey_small:
  "fid_small fid \<Longrightarrow> fid_small (fileId g) \<Longrightarrow> compFGroupKey fid g = sint fid - fkey g"
  unfolding compFGroupKey_def fkey_def fid_small_def by (rule sint_sub32) simp_all

lemma compFGroup_small:
  "fid_small (fileId a) \<Longrightarrow> fid_small (fileId b) \<Longrightarrow> compFGroup a b = fkey a - fkey b"
  unfolding compFGroup_def fkey_def fid_small_def by (rule sint_sub32) simp_all

lemma bsearch_loop_sound:
  assumes small: "\<forall>g \<in> set xs. fid_small (fileId g)" "fid_small fid"
  shows "u \<le> length xs \<Longrightarrow> bsearch_loop compFGroupKey fid xs l u = Some i
    \<Longrightarrow> l \<le> i \<and> i < u \<and> fkey (xs ! i) = sint fid"
proof (induction "u - l" arbitrary: l u rule: less_induct)
  case less
  show ?case
  proof (cases "l < u")
    case False
    with less.prems show ?thesis by (subst (asm) bsearch_loop.simps) simp
  next
    case True
    let ?idx = "(l + u) div 2"
    have idx: "l \<le> ?idx" "?idx < u" using True by simp_all
    then have inr: "?idx < length xs" using less.prems(1) by simp
    have c: "compFGroupKey fid (xs ! ?idx) = sint fid - fkey (xs ! ?idx)"
      using small inr by (simp add: compFGroupKey_small)
    consider (lt) "sint fid < fkey (xs ! ?idx)" | (gt) "sint fid > fkey (xs ! ?idx)"
      | (eq) "sint fid = fkey (xs ! ?idx)" by linarith
    then show ?thesis
    proof cases
      case lt
      then have r: "bsearch_loop compFGroupKey fid xs l u = bsearch_loop compFGroupKey fid xs l ?idx"
        using True c by (subst bsearch_loop.simps) (simp add: Let_def)
      have "l \<le> i \<and> i < ?idx \<and> fkey (xs ! i) = sint fid"
        using less.hyps [of ?idx l] less.prems r idx by simp
      then show ?thesis using idx by simp
    next
      case gt
      then have r: "bsearch_loop compFGroupKey fid xs l u = bsearch_loop compFGroupKey fid xs (?idx + 1) u"
        using True c by (subst bsearch_loop.simps) (simp add: Let_def)
      have "?idx + 1 \<le> i \<and> i < u \<and> fkey (xs ! i) = sint fid"
        using less.hyps [of u "?idx + 1"] less.prems r idx by simp
      then show ?thesis using idx by simp
    next
      case eq
      then have "bsearch_loop compFGroupKey fid xs l u = Some ?idx"
        using True c by (subst bsearch_loop.simps) (simp add: Let_def)
      with less.prems eq idx show ?thesis by simp
    qed
  qed
qed

lemma bsearch_loop_complete:
  assumes small: "\<forall>g \<in> set xs. fid_small (fileId g)" "fid_small fid"
    and sorted: "sorted_wrt (\<lambda>a b. fkey a < fkey b) xs"
  shows "u \<le> length xs \<Longrightarrow> l \<le> j \<Longrightarrow> j < u \<Longrightarrow> fkey (xs ! j) = sint fid
    \<Longrightarrow> bsearch_loop compFGroupKey fid xs l u \<noteq> None"
proof (induction "u - l" arbitrary: l u rule: less_induct)
  case less
  have True: "l < u" using less.prems by simp
  let ?idx = "(l + u) div 2"
  have idx: "l \<le> ?idx" "?idx < u" using True by simp_all
  then have inr: "?idx < length xs" using less.prems(1) by simp
  have jr: "j < length xs" using less.prems by simp
  have c: "compFGroupKey fid (xs ! ?idx) = sint fid - fkey (xs ! ?idx)"
    using small inr by (simp add: compFGroupKey_small)
  have mono: "\<And>a b. a < b \<Longrightarrow> b < length xs \<Longrightarrow> fkey (xs ! a) < fkey (xs ! b)"
    using sorted by (simp add: sorted_wrt_iff_nth_less)
  consider (lt) "sint fid < fkey (xs ! ?idx)" | (gt) "sint fid > fkey (xs ! ?idx)"
    | (eq) "sint fid = fkey (xs ! ?idx)" by linarith
  then show ?case
  proof cases
    case lt
    then have r: "bsearch_loop compFGroupKey fid xs l u = bsearch_loop compFGroupKey fid xs l ?idx"
      using True c by (subst bsearch_loop.simps) (simp add: Let_def)
    have "j < ?idx"
    proof (rule ccontr)
      assume "\<not> j < ?idx"
      then have "?idx = j \<or> ?idx < j" by linarith
      then have "fkey (xs ! ?idx) \<le> fkey (xs ! j)" using mono [of ?idx j] jr by auto
      with lt less.prems(4) show False by simp
    qed
    then show ?thesis
      unfolding r using less.hyps [of ?idx l] less.prems idx by simp
  next
    case gt
    then have r: "bsearch_loop compFGroupKey fid xs l u = bsearch_loop compFGroupKey fid xs (?idx + 1) u"
      using True c by (subst bsearch_loop.simps) (simp add: Let_def)
    have "?idx < j"
    proof (rule ccontr)
      assume "\<not> ?idx < j"
      then have "?idx = j \<or> j < ?idx" by linarith
      then have "fkey (xs ! j) \<le> fkey (xs ! ?idx)" using mono [of j ?idx] inr by auto
      with gt less.prems(4) show False by simp
    qed
    then show ?thesis
      unfolding r using less.hyps [of u "?idx + 1"] less.prems idx by simp
  next
    case eq
    then have "bsearch_loop compFGroupKey fid xs l u = Some ?idx"
      using True c by (subst bsearch_loop.simps) (simp add: Let_def)
    then show ?thesis by simp
  qed
qed

lemma fkey_eq_iff: "fkey g = sint fid \<longleftrightarrow> fileId g = fid"
  unfolding fkey_def by (auto intro: signed_word_eqI)

lemma tsdbSearchFGroup_None_iff:
  assumes small: "\<forall>g \<in> set (fGroup h). fid_small (fileId g)" "fid_small fid"
    and sorted: "sorted_wrt (\<lambda>a b. fkey a < fkey b) (fGroup h)"
  shows "tsdbSearchFGroup h fid = None \<longleftrightarrow> fid \<notin> fileId ` set (fGroup h)"
proof
  assume n: "tsdbSearchFGroup h fid = None"
  show "fid \<notin> fileId ` set (fGroup h)"
  proof
    assume "fid \<in> fileId ` set (fGroup h)"
    then obtain j where j: "j < length (fGroup h)" "fileId (fGroup h ! j) = fid"
      by (auto simp: in_set_conv_nth)
    have mono: "\<And>a b. a < b \<Longrightarrow> b < length (fGroup h) \<Longrightarrow> fkey (fGroup h ! a) < fkey (fGroup h ! b)"
      using sorted by (simp add: sorted_wrt_iff_nth_less)
    have kj: "fkey (fGroup h ! j) = sint fid" using j(2) by (simp add: fkey_def)
    have first: "fkey (fGroup h ! 0) \<le> sint fid"
    proof (cases "j = 0")
      case True then show ?thesis using kj by simp
    next
      case False then show ?thesis using mono [of 0 j] j(1) kj by simp
    qed
    have last: "sint fid \<le> fkey (fGroup h ! (length (fGroup h) - 1))"
    proof (cases "j = length (fGroup h) - 1")
      case True then show ?thesis using kj by simp
    next
      case False
      then have "j < length (fGroup h) - 1" "length (fGroup h) - 1 < length (fGroup h)"
        using j(1) by simp_all
      then show ?thesis using mono [of j "length (fGroup h) - 1"] kj by simp
    qed
    have "bsearch compFGroupKey fid (fGroup h) = None"
      using n first last j(1)
      by (auto simp: tsdbSearchFGroup_def numOfFGroups_def fkey_def split: if_splits)
    moreover have "bsearch_loop compFGroupKey fid (fGroup h) 0 (length (fGroup h)) \<noteq> None"
      using bsearch_loop_complete [OF small sorted, of "length (fGroup h)" 0 j] j
      by (simp add: fkey_def)
    ultimately show False by (simp add: bsearch_def)
  qed
next
  assume nin: "fid \<notin> fileId ` set (fGroup h)"
  show "tsdbSearchFGroup h fid = None"
  proof (rule ccontr)
    assume "tsdbSearchFGroup h fid \<noteq> None"
    then obtain i where "bsearch_loop compFGroupKey fid (fGroup h) 0 (length (fGroup h)) = Some i"
      by (auto simp: tsdbSearchFGroup_def bsearch_def split: if_splits)
    from bsearch_loop_sound [OF small _ this]
    have "i < length (fGroup h)" "fileId (fGroup h ! i) = fid" by (simp_all add: fkey_eq_iff)
    with nin show False by (metis image_eqI nth_mem)
  qed
qed


lemma set_qsort_insert: "set (qsort_insert cmp x ys) = insert x (set ys)"
  by (induction ys) auto

lemma length_qsort_insert: "length (qsort_insert cmp x ys) = Suc (length ys)"
  by (induction ys) auto

lemma sorted_qsort_insert:
  assumes "fid_small (fileId x)" "\<forall>g \<in> set ys. fid_small (fileId g)"
    and "sorted_wrt (\<lambda>a b. fkey a < fkey b) ys" and "fkey x \<notin> fkey ` set ys"
  shows "sorted_wrt (\<lambda>a b. fkey a < fkey b) (qsort_insert compFGroup x ys)"
  using assms
proof (induction ys)
  case Nil
  then show ?case by simp
next
  case (Cons y ys)
  have c: "compFGroup x y = fkey x - fkey y"
    using Cons.prems by (simp add: compFGroup_small)
  show ?case
  proof (cases "fkey x \<le> fkey y")
    case True
    then have "fkey x < fkey y" using Cons.prems(4) by force
    then show ?thesis using Cons.prems c by (auto simp: set_qsort_insert)
  next
    case False
    then show ?thesis using Cons c by (auto simp: set_qsort_insert)
  qed
qed

lemma qsort_foldr:
  assumes "\<forall>g \<in> set (xs @ acc). fid_small (fileId g)"
    and "distinct (map fkey (xs @ acc))" and "sorted_wrt (\<lambda>a b. fkey a < fkey b) acc"
  shows "sorted_wrt (\<lambda>a b. fkey a < fkey b) (foldr (qsort_insert compFGroup) xs acc)
    \<and> set (foldr (qsort_insert compFGroup) xs acc) = set xs \<union> set acc
    \<and> length (foldr (qsort_insert compFGroup) xs acc) = length xs + length acc"
  using assms
proof (induction xs)
  case Nil
  then show ?case by simp
next
  case (Cons x xs)
  have ih: "sorted_wrt (\<lambda>a b. fkey a < fkey b) (foldr (qsort_insert compFGroup) xs acc)"
    "set (foldr (qsort_insert compFGroup) xs acc) = set xs \<union> set acc"
    "length (foldr (qsort_insert compFGroup) xs acc) = length xs + length acc"
    using Cons by simp_all
  have "sorted_wrt (\<lambda>a b. fkey a < fkey b)
      (qsort_insert compFGroup x (foldr (qsort_insert compFGroup) xs acc))"
    using Cons.prems ih by (intro sorted_qsort_insert) auto
  then show ?case
    using ih by (simp add: set_qsort_insert length_qsort_insert)
qed

lemma sorted_wrt_distinct_keys:
  "sorted_wrt (\<lambda>a b. fkey a < fkey b) xs \<Longrightarrow> distinct (map fkey xs)"
  by (induction xs) auto

lemma qsort_append_new:
  assumes "\<forall>g \<in> set xs. fid_small (fileId g)" "fid_small (fileId g)"
    and "sorted_wrt (\<lambda>a b. fkey a < fkey b) xs" and "fileId g \<notin> fileId ` set xs"
  shows "sorted_wrt (\<lambda>a b. fkey a < fkey b) (qsort compFGroup (xs @ [g]))
    \<and> set (qsort compFGroup (xs @ [g])) = insert g (set xs)
    \<and> length (qsort compFGroup (xs @ [g])) = Suc (length xs)"
proof -
  have "fkey g \<notin> fkey ` set xs"
  proof
    assume "fkey g \<in> fkey ` set xs"
    then obtain x where x: "x \<in> set xs" "sint (fileId g) = sint (fileId x)"
      by (auto simp: fkey_def)
    then have "fileId g = fileId x" by (intro signed_word_eqI)
    with x(1) assms(4) show False by auto
  qed
  then have d: "distinct (map fkey (xs @ [g]))"
    using sorted_wrt_distinct_keys [OF assms(3)] by auto
  have q: "qsort compFGroup (xs @ [g]) = foldr (qsort_insert compFGroup) xs [g]"
    by (simp add: qsort_def)
  show ?thesis
    unfolding q using qsort_foldr [of xs "[g]"] assms(1,2) d by auto
qed

lemma tsdbSearchFGroup_Some:
  assumes small: "\<forall>g \<in> set (fGroup h). fid_small (fileId g)" "fid_small fid"
    and s: "tsdbSearchFGroup h fid = Some i"
  shows "i < length (fGroup h) \<and> fileId (fGroup h ! i) = fid"
proof -
  from s have "bsearch_loop compFGroupKey fid (fGroup h) 0 (length (fGroup h)) = Some i"
    by (auto simp: tsdbSearchFGroup_def bsearch_def split: if_splits)
  from bsearch_loop_sound [OF small _ this] show ?thesis by (simp add: fkey_eq_iff)
qed

lemma sorted_fkey: 
  "sorted_wrt (\<lambda>a b. sint (fileId a) < sint (fileId b)) xs = sorted_wrt (\<lambda>a b. fkey a < fkey b) xs"
  by (simp add: fkey_def)

subsection \<open>The system calls\<close>

lemma first_free_le: "first_free t \<le> length t"
  by (induction t rule: first_free.induct) auto

lemma first_free_None: "first_free t < length t \<Longrightarrow> t ! first_free t = None"
  by (induction t rule: first_free.induct) auto

lemma fd_lookup_fresh: "fd_lookup fs (int (first_free (fdt fs))) = None"
  by (simp add: fd_lookup_def first_free_None)

lemma fd_lookup_install:
  "fd_lookup (fs\<lparr>fdt := fd_install (fdt fs) f\<rparr>) d
   = (if d = int (first_free (fdt fs)) then Some f else fd_lookup fs d)"
proof (cases "first_free (fdt fs) < length (fdt fs)")
  case True
  then show ?thesis
    by (auto simp: fd_lookup_def fd_install_def nth_list_update)
next
  case False
  then have e: "first_free (fdt fs) = length (fdt fs)"
    using first_free_le [of "fdt fs"] by simp
  show ?thesis
    using False by (auto simp: fd_lookup_def fd_install_def e nth_append)
qed

lemma fd_lookup_update:
  "fd_lookup fs d = Some f \<Longrightarrow>
   fd_lookup (fs\<lparr>fdt := (fdt fs)[nat d := v]\<rparr>) d' = (if d' = d then v else fd_lookup fs d')"
  by (auto simp: fd_lookup_def nth_list_update split: if_splits)

lemma fd_lookup_disk [simp]: "fd_lookup (fs\<lparr>disk := x\<rparr>) = fd_lookup fs"
  by (rule ext) (simp add: fd_lookup_def)

lemma file_bytes_fdt [simp]: "file_bytes (fs\<lparr>fdt := x\<rparr>) = file_bytes fs"
  by (rule ext) (simp add: file_bytes_def)

text \<open>The system calls, described by what they return and what the lookups and the disk
  are afterwards.\<close>

lemma sys_open_ok:
  assumes "p \<notin> deny_open fs" and "disk fs p \<noteq> None \<or> creat"
  shows "fst (sys_open fs p m creat) = int (first_free (fdt fs))"
    and "fd_lookup (snd (sys_open fs p m creat))
         = (fd_lookup fs)(int (first_free (fdt fs)) := Some \<lparr>of_path = p, of_pos = 0, of_mode = m\<rparr>)"
    and "disk (snd (sys_open fs p m creat))
         = (if disk fs p = None then (disk fs)(p \<mapsto> []) else disk fs)"
    and "deny_open (snd (sys_open fs p m creat)) = deny_open fs"
    and "deny_write (snd (sys_open fs p m creat)) = deny_write fs"
  using assms
  by (auto simp: sys_open_def fd_lookup_install [of "fs\<lparr>disk := x\<rparr>" for x, simplified] fun_eq_iff
      fd_lookup_install)


lemma sys_open_fail:
  "p \<in> deny_open fs \<or> (disk fs p = None \<and> \<not> creat) \<Longrightarrow> sys_open fs p m creat = (- 1, fs)"
  by (auto simp: sys_open_def)

lemma sys_lseek_ok:
  assumes "fd_lookup fs d = Some f" and "0 \<le> off"
  shows "fst (sys_lseek_set fs d off) = off"
    and "fd_lookup (snd (sys_lseek_set fs d off)) = (fd_lookup fs)(d \<mapsto> f\<lparr>of_pos := nat off\<rparr>)"
    and "disk (snd (sys_lseek_set fs d off)) = disk fs"
    and "deny_open (snd (sys_lseek_set fs d off)) = deny_open fs"
    and "deny_write (snd (sys_lseek_set fs d off)) = deny_write fs"
  using assms by (auto simp: sys_lseek_set_def fd_lookup_update fun_eq_iff)

lemma sys_write_ok:
  assumes "fd_lookup fs d = Some f" and "of_mode f \<noteq> O_RDONLY" and "of_path f \<notin> deny_write fs"
  shows "fst (sys_write lim fs d bs) = int (length (take lim bs))"
    and "fd_lookup (snd (sys_write lim fs d bs))
         = (fd_lookup fs)(d \<mapsto> f\<lparr>of_pos := of_pos f + length (take lim bs)\<rparr>)"
    and "disk (snd (sys_write lim fs d bs))
         = (disk fs)(of_path f \<mapsto> write_at (file_bytes fs (of_path f)) (of_pos f) (take lim bs))"
    and "deny_open (snd (sys_write lim fs d bs)) = deny_open fs"
    and "deny_write (snd (sys_write lim fs d bs)) = deny_write fs"
  using assms
  by (auto simp: sys_write_def Let_def fun_eq_iff
      fd_lookup_update [of "fs\<lparr>disk := x\<rparr>" for x, simplified])

lemma sys_write_denied:
  "fd_lookup fs d = Some f \<Longrightarrow> of_path f \<in> deny_write fs \<Longrightarrow> sys_write lim fs d bs = (- 1, fs)"
  by (simp add: sys_write_def)


lemma sys_read_bad: "fd_lookup fs d = None \<Longrightarrow> sys_read lim fs d n = (- 1, [], fs)"
  by (simp add: sys_read_def)


lemma sys_close_ok:
  assumes "fd_lookup fs d = Some f"
  shows "fst (sys_close fs d) = 0"
    and "fd_lookup (snd (sys_close fs d)) = (fd_lookup fs)(d := None)"
    and "disk (snd (sys_close fs d)) = disk fs"
    and "deny_open (snd (sys_close fs d)) = deny_open fs"
    and "deny_write (snd (sys_close fs d)) = deny_write fs"
  using assms by (auto simp: sys_close_def fd_lookup_update fun_eq_iff)

lemma write_at_zeros:
  "write_at (replicate a 0) pos (replicate b 0)
   = replicate (max a (if b = 0 then 0 else pos + b)) 0"
  by (simp add: write_at_def max_def min_def flip: replicate_add)

lemma write_at_zeros_start:
  "write_at (replicate a 0) 0 (replicate b 0) = replicate (max a b) 0"
  by (simp add: write_at_zeros max_def)

lemma write_at_zeros_empty:
  "write_at (replicate 0 0) pos (replicate b 0) = replicate (if b = 0 then 0 else pos + b) 0"
  by (simp only: write_at_zeros) simp

lemma file_bytes_upd:
  "file_bytes (fs\<lparr>disk := (disk fs)(p \<mapsto> bs)\<rparr>) q = (if q = p then bs else file_bytes fs q)"
  by (simp add: file_bytes_def)

subsection \<open>Creating a file\<close>

text \<open>The file operations on a descriptor that is open for writing at the file \<open>p\<close>,
  whose bytes are zeros.\<close>

lemma tsdbOpenFile_ok:
  assumes "\<not> TSDB_IS_FILE_OPENED H (fd pFile)" and "fname pFile \<notin> deny_open fs"
    and "disk fs (fname pFile) \<noteq> None \<or> creat"
  shows "fst (tsdbOpenFile H pFile m creat fs) = 0"
    and "fst (snd (tsdbOpenFile H pFile m creat fs)) = pFile\<lparr>fd := int (first_free (fdt fs))\<rparr>"
    and "fd_lookup (snd (snd (tsdbOpenFile H pFile m creat fs)))
         = (fd_lookup fs)(int (first_free (fdt fs))
              := Some \<lparr>of_path = fname pFile, of_pos = 0, of_mode = m\<rparr>)"
    and "disk (snd (snd (tsdbOpenFile H pFile m creat fs)))
         = (if disk fs (fname pFile) = None then (disk fs)(fname pFile \<mapsto> []) else disk fs)"
    and "deny_open (snd (snd (tsdbOpenFile H pFile m creat fs))) = deny_open fs"
    and "deny_write (snd (snd (tsdbOpenFile H pFile m creat fs))) = deny_write fs"
  using assms sys_open_ok [OF assms(2,3), of m]
  by (simp_all add: tsdbOpenFile_def case_prod_beta Let_def)

lemma tsdbOpenFile_denied:
  assumes "\<not> TSDB_IS_FILE_OPENED H (fd pFile)"
    and "fname pFile \<in> deny_open fs \<or> (disk fs (fname pFile) = None \<and> \<not> creat)"
  shows "fst (tsdbOpenFile H pFile m creat fs) = - 1"
  using assms sys_open_fail [OF assms(2), of m]
  by (simp add: tsdbOpenFile_def case_prod_beta Let_def)

lemma tsdbCloseFile_ok:
  assumes "TSDB_IS_FILE_OPENED H (fd pFile)" and "fd_lookup fs (fd pFile) = Some f"
  shows "fst (snd (tsdbCloseFile H pFile fs)) = pFile\<lparr>fd := - 1\<rparr>"
    and "fd_lookup (snd (snd (tsdbCloseFile H pFile fs))) = (fd_lookup fs)(fd pFile := None)"
    and "disk (snd (snd (tsdbCloseFile H pFile fs))) = disk fs"
    and "deny_open (snd (snd (tsdbCloseFile H pFile fs))) = deny_open fs"
    and "deny_write (snd (snd (tsdbCloseFile H pFile fs))) = deny_write fs"
  using assms(1) sys_close_ok [OF assms(2)]
  by (simp_all add: tsdbCloseFile_def case_prod_beta Let_def)

lemma tsdbWriteFileHead_ok:
  assumes "fd_lookup fs (fd pFile) = Some f" and "of_mode f \<noteq> O_RDONLY"
    and "of_path f \<notin> deny_write fs" and "file_bytes fs (of_path f) = replicate a 0"
  shows "fst (tsdbWriteFileHead H pFile fs) = 0"
    and "fst (snd (tsdbWriteFileHead H pFile fs))
         = pFile\<lparr>fsize := fsize pFile + int (TSDB_FILE_HEAD_SIZE H)\<rparr>"
    and "fd_lookup (snd (snd (tsdbWriteFileHead H pFile fs)))
         = (fd_lookup fs)(fd pFile \<mapsto>
              f\<lparr>of_pos := min (MAX_RW_COUNT H) (TSDB_FILE_HEAD_SIZE H)\<rparr>)"
    and "disk (snd (snd (tsdbWriteFileHead H pFile fs)))
         = (disk fs)(of_path f \<mapsto>
              replicate (max a (min (MAX_RW_COUNT H) (TSDB_FILE_HEAD_SIZE H))) 0)"
    and "deny_open (snd (snd (tsdbWriteFileHead H pFile fs))) = deny_open fs"
    and "deny_write (snd (snd (tsdbWriteFileHead H pFile fs))) = deny_write fs"
proof -
  let ?k = "min (MAX_RW_COUNT H) (TSDB_FILE_HEAD_SIZE H)"
  let ?fs1 = "snd (sys_lseek_set fs (fd pFile) 0)"
  note l = sys_lseek_ok [OF assms(1), of 0, simplified]
  have lk1: "fd_lookup ?fs1 (fd pFile) = Some (f\<lparr>of_pos := 0\<rparr>)"
    by (simp add: l)
  have fb1: "file_bytes ?fs1 (of_path f) = replicate a 0"
    using assms(4) by (simp add: file_bytes_def l)
  have w: "of_mode (f\<lparr>of_pos := 0\<rparr>) \<noteq> O_RDONLY" "of_path (f\<lparr>of_pos := 0\<rparr>) \<notin> deny_write ?fs1"
    using assms(2,3) by (simp_all add: l)
  have tk: "take (MAX_RW_COUNT H) (replicate (TSDB_FILE_HEAD_SIZE H) (0 :: byte)) = replicate ?k 0"
    by simp
  note ww = sys_write_ok [OF lk1 w, of "MAX_RW_COUNT H" "replicate (TSDB_FILE_HEAD_SIZE H) 0",
      unfolded tk]
  have wz: "write_at (replicate a 0) 0 (replicate ?k (0 :: byte)) = replicate (max a ?k) 0"
    by (rule write_at_zeros_start)
  show "fst (tsdbWriteFileHead H pFile fs) = 0"
    and "fst (snd (tsdbWriteFileHead H pFile fs))
         = pFile\<lparr>fsize := fsize pFile + int (TSDB_FILE_HEAD_SIZE H)\<rparr>"
    and "fd_lookup (snd (snd (tsdbWriteFileHead H pFile fs)))
         = (fd_lookup fs)(fd pFile \<mapsto> f\<lparr>of_pos := ?k\<rparr>)"
    and "disk (snd (snd (tsdbWriteFileHead H pFile fs)))
         = (disk fs)(of_path f \<mapsto> replicate (max a ?k) 0)"
    and "deny_open (snd (snd (tsdbWriteFileHead H pFile fs))) = deny_open fs"
    and "deny_write (snd (snd (tsdbWriteFileHead H pFile fs))) = deny_write fs"
    using ww fb1 wz
    by (simp_all add: tsdbWriteFileHead_def case_prod_beta Let_def l)
qed

lemma tsdbWriteFileHead_denied:
  assumes "fd_lookup fs (fd pFile) = Some f" and "of_path f \<in> deny_write fs"
  shows "fst (tsdbWriteFileHead H pFile fs) = - 1"
proof -
  let ?fs1 = "snd (sys_lseek_set fs (fd pFile) 0)"
  note l = sys_lseek_ok [OF assms(1), of 0, simplified]
  have lk1: "fd_lookup ?fs1 (fd pFile) = Some (f\<lparr>of_pos := 0\<rparr>)"
    by (simp add: l)
  have "of_path (f\<lparr>of_pos := 0\<rparr>) \<in> deny_write ?fs1" using assms(2) by (simp add: l)
  from sys_write_denied [OF lk1 this] show ?thesis
    by (simp add: tsdbWriteFileHead_def case_prod_beta Let_def)
qed

lemma tsdbWriteHeadFileIdx_ok:
  assumes "fd_lookup fs (fd pFile) = Some f" and "of_mode f \<noteq> O_RDONLY"
    and "of_path f \<notin> deny_write fs" and "file_bytes fs (of_path f) = []"
    and "0 \<le> idx_region_size H n"
  shows "fst (tsdbWriteHeadFileIdx H pFile n fs) = 0"
    and "fst (snd (tsdbWriteHeadFileIdx H pFile n fs))
         = pFile\<lparr>fsize := fsize pFile + idx_region_size H n\<rparr>"
    and "fd_lookup (snd (snd (tsdbWriteHeadFileIdx H pFile n fs)))
         = (fd_lookup fs)(fd pFile \<mapsto>
              f\<lparr>of_pos := TSDB_FILE_HEAD_SIZE H
                           + min (MAX_RW_COUNT H) (nat (idx_region_size H n))\<rparr>)"
    and "disk (snd (snd (tsdbWriteHeadFileIdx H pFile n fs)))
         = (disk fs)(of_path f \<mapsto>
              replicate (if min (MAX_RW_COUNT H) (nat (idx_region_size H n)) = 0 then 0
                         else TSDB_FILE_HEAD_SIZE H
                              + min (MAX_RW_COUNT H) (nat (idx_region_size H n))) 0)"
    and "deny_open (snd (snd (tsdbWriteHeadFileIdx H pFile n fs))) = deny_open fs"
    and "deny_write (snd (snd (tsdbWriteHeadFileIdx H pFile n fs))) = deny_write fs"
proof -
  let ?hs = "TSDB_FILE_HEAD_SIZE H"
  let ?k = "min (MAX_RW_COUNT H) (nat (idx_region_size H n))"
  let ?fs1 = "snd (sys_lseek_set fs (fd pFile) (int ?hs))"
  note l = sys_lseek_ok [OF assms(1), of "int ?hs", simplified]
  have lk1: "fd_lookup ?fs1 (fd pFile) = Some (f\<lparr>of_pos := ?hs\<rparr>)"
    by (simp add: l)
  have fb1: "file_bytes ?fs1 (of_path f) = replicate 0 0"
    using assms(4) by (simp add: file_bytes_def l)
  have w: "of_mode (f\<lparr>of_pos := ?hs\<rparr>) \<noteq> O_RDONLY" "of_path (f\<lparr>of_pos := ?hs\<rparr>) \<notin> deny_write ?fs1"
    using assms(2,3) by (simp_all add: l)
  have tk: "take (MAX_RW_COUNT H) (replicate (nat (idx_region_size H n)) (0 :: byte))
      = replicate ?k 0"
    by simp
  note ww = sys_write_ok [OF lk1 w, of "MAX_RW_COUNT H" "replicate (nat (idx_region_size H n)) 0",
      unfolded tk]
  have wz: "write_at (replicate 0 0) ?hs (replicate ?k (0 :: byte))
      = replicate (if ?k = 0 then 0 else ?hs + ?k) 0"
    by (rule write_at_zeros_empty)
  show "fst (tsdbWriteHeadFileIdx H pFile n fs) = 0"
    and "fst (snd (tsdbWriteHeadFileIdx H pFile n fs))
         = pFile\<lparr>fsize := fsize pFile + idx_region_size H n\<rparr>"
    and "fd_lookup (snd (snd (tsdbWriteHeadFileIdx H pFile n fs)))
         = (fd_lookup fs)(fd pFile \<mapsto> f\<lparr>of_pos := ?hs + ?k\<rparr>)"
    and "disk (snd (snd (tsdbWriteHeadFileIdx H pFile n fs)))
         = (disk fs)(of_path f \<mapsto> replicate (if ?k = 0 then 0 else ?hs + ?k) 0)"
    and "deny_open (snd (snd (tsdbWriteHeadFileIdx H pFile n fs))) = deny_open fs"
    and "deny_write (snd (snd (tsdbWriteHeadFileIdx H pFile n fs))) = deny_write fs"
    using ww fb1 wz assms(5)
    by (simp_all add: tsdbWriteHeadFileIdx_def case_prod_beta Let_def l)
qed

lemma tsdbWriteHeadFileIdx_fail:
  assumes "fd_lookup fs (fd pFile) = Some f"
    and "idx_region_size H n < 0 \<or> of_path f \<in> deny_write fs"
  shows "fst (tsdbWriteHeadFileIdx H pFile n fs) = - 1"
proof (cases "idx_region_size H n < 0")
  case True
  then show ?thesis by (simp add: tsdbWriteHeadFileIdx_def Let_def)
next
  case False
  let ?hs = "TSDB_FILE_HEAD_SIZE H"
  let ?fs1 = "snd (sys_lseek_set fs (fd pFile) (int ?hs))"
  note l = sys_lseek_ok [OF assms(1), of "int ?hs", simplified]
  have lk1: "fd_lookup ?fs1 (fd pFile) = Some (f\<lparr>of_pos := ?hs\<rparr>)"
    by (simp add: l)
  have "of_path (f\<lparr>of_pos := ?hs\<rparr>) \<in> deny_write ?fs1" using assms(2) False by (simp add: l)
  from sys_write_denied [OF lk1 this] False show ?thesis
    by (simp add: tsdbWriteHeadFileIdx_def case_prod_beta Let_def l)
qed


lemma tsdbCreateFile_ok:
  assumes Hok: "fhdr_ok H"
    and c: "creatable H fs (tsdbGetFileName dataDir fid suffix) wh n"
  shows "fst (tsdbCreateFile H dataDir fid suffix n wh True fs) = 0"
    and "fst (snd (tsdbCreateFile H dataDir fid suffix n wh True fs))
         = \<lparr>fname = tsdbGetFileName dataDir fid suffix, fd = - 1,
            fsize = (if wh then idx_region_size H n else 0) + int (TSDB_FILE_HEAD_SIZE H)\<rparr>"
    and "disk (snd (snd (tsdbCreateFile H dataDir fid suffix n wh True fs)))
         = (disk fs)(tsdbGetFileName dataDir fid suffix \<mapsto>
              replicate (file_len_created H wh n) 0)"
    and "fd_lookup (snd (snd (tsdbCreateFile H dataDir fid suffix n wh True fs))) = fd_lookup fs"
    and "deny_open (snd (snd (tsdbCreateFile H dataDir fid suffix n wh True fs))) = deny_open fs"
    and "deny_write (snd (snd (tsdbCreateFile H dataDir fid suffix n wh True fs))) = deny_write fs"
proof -
  let ?name = "tsdbGetFileName dataDir fid suffix"
  let ?hs = "TSDB_FILE_HEAD_SIZE H"
  let ?f0 = "\<lparr>fname = ?name, fd = - 1, fsize = 0\<rparr>"
  let ?d = "int (first_free (fdt fs))"
  let ?O = "tsdbOpenFile H ?f0 O_WRONLY True fs"
  let ?f1 = "\<lparr>fname = ?name, fd = ?d, fsize = 0\<rparr>"
  let ?fs1 = "snd (snd ?O)"
  let ?e1 = "\<lparr>of_path = ?name, of_pos = 0, of_mode = O_WRONLY\<rparr>"
  from c have nex: "disk fs ?name = None" and nd: "?name \<notin> deny_open fs"
    and nw: "?name \<notin> deny_write fs" and szok: "wh \<Longrightarrow> 0 \<le> idx_region_size H n"
    by (simp_all add: creatable_def)
  from Hok have cl: "\<not> TSDB_IS_FILE_OPENED H (- 1)" and op: "TSDB_IS_FILE_OPENED H ?d"
    by (simp_all add: fhdr_ok_def)
  have acc: "sys_access fs ?name \<noteq> 0" using nex by (simp add: sys_access_def)
  have o: "fst ?O = 0" "fst (snd ?O) = ?f1"
    "fd_lookup ?fs1 = (fd_lookup fs)(?d := Some ?e1)"
    "disk ?fs1 = (disk fs)(?name \<mapsto> [])" "deny_open ?fs1 = deny_open fs"
    "deny_write ?fs1 = deny_write fs"
    using tsdbOpenFile_ok [of H ?f0 fs True O_WRONLY] cl nd nex by simp_all
  have lk1: "fd_lookup ?fs1 (fd ?f1) = Some ?e1" by (simp add: o)
  have fb1: "file_bytes ?fs1 (of_path ?e1) = []" by (simp add: file_bytes_def o)
  have w1: "of_mode ?e1 \<noteq> O_RDONLY" "of_path ?e1 \<notin> deny_write ?fs1" using nw by (simp_all add: o)
  have fresh: "(fd_lookup fs)(?d := None) = fd_lookup fs"
    using fd_lookup_fresh [of fs] by (auto simp: fun_eq_iff)
  let ?R = "tsdbCreateFile H dataDir fid suffix n wh True fs"
  let ?G = "fst ?R = 0 \<and>
      fst (snd ?R) = \<lparr>fname = ?name, fd = - 1,
            fsize = (if wh then idx_region_size H n else 0) + int ?hs\<rparr> \<and>
      disk (snd (snd ?R))
         = (disk fs)(?name \<mapsto> replicate (file_len_created H wh n) 0) \<and>
      fd_lookup (snd (snd ?R)) = fd_lookup fs \<and>
      deny_open (snd (snd ?R)) = deny_open fs \<and>
      deny_write (snd (snd ?R)) = deny_write fs"
  have all: ?G
  proof (cases wh)
    case True
    let ?I = "tsdbWriteHeadFileIdx H ?f1 n ?fs1"
    let ?sz = "idx_region_size H n"
    let ?k = "min (MAX_RW_COUNT H) (nat ?sz)"
    let ?kh = "min (MAX_RW_COUNT H) ?hs"
    let ?f2 = "\<lparr>fname = ?name, fd = ?d, fsize = ?sz\<rparr>"
    let ?fs2 = "snd (snd ?I)"
    let ?e2 = "\<lparr>of_path = ?name, of_pos = ?hs + ?k, of_mode = O_WRONLY\<rparr>"
    let ?a = "if ?k = 0 then 0 else ?hs + ?k"
    have i: "fst ?I = 0" "fst (snd ?I) = ?f2"
      "fd_lookup ?fs2 = (fd_lookup ?fs1)(?d \<mapsto> ?e2)"
      "disk ?fs2 = (disk ?fs1)(?name \<mapsto> replicate ?a 0)"
      "deny_open ?fs2 = deny_open fs" "deny_write ?fs2 = deny_write fs"
      using tsdbWriteHeadFileIdx_ok [OF lk1 w1 fb1 szok [OF True]] by (simp_all add: o)
    have lk2: "fd_lookup ?fs2 (fd ?f2) = Some ?e2" by (simp add: i)
    have fb2: "file_bytes ?fs2 (of_path ?e2) = replicate ?a 0" by (simp add: file_bytes_def i)
    have w2: "of_mode ?e2 \<noteq> O_RDONLY" "of_path ?e2 \<notin> deny_write ?fs2" using nw by (simp_all add: i)
    let ?W = "tsdbWriteFileHead H ?f2 ?fs2"
    let ?f3 = "\<lparr>fname = ?name, fd = ?d, fsize = ?sz + int ?hs\<rparr>"
    let ?fs3 = "snd (snd ?W)"
    let ?e3 = "\<lparr>of_path = ?name, of_pos = ?kh, of_mode = O_WRONLY\<rparr>"
    have h: "fst ?W = 0" "fst (snd ?W) = ?f3"
      "fd_lookup ?fs3 = (fd_lookup ?fs2)(?d \<mapsto> ?e3)"
      "disk ?fs3 = (disk ?fs2)(?name \<mapsto> replicate (max ?a ?kh) 0)"
      "deny_open ?fs3 = deny_open fs" "deny_write ?fs3 = deny_write fs"
      using tsdbWriteFileHead_ok [OF lk2 w2 fb2, of H] by (simp_all add: i)
    have lk3: "fd_lookup ?fs3 (fd ?f3) = Some ?e3" by (simp add: h)
    have op3: "TSDB_IS_FILE_OPENED H (fd ?f3)" using op by simp
    let ?C = "tsdbCloseFile H ?f3 ?fs3"
    have k: "fst (snd ?C) = \<lparr>fname = ?name, fd = - 1, fsize = fsize ?f3\<rparr>"
      "fd_lookup (snd (snd ?C)) = (fd_lookup ?fs3)(?d := None)"
      "disk (snd (snd ?C)) = disk ?fs3"
      "deny_open (snd (snd ?C)) = deny_open fs" "deny_write (snd (snd ?C)) = deny_write fs"
      using tsdbCloseFile_ok [OF op3 lk3] by (simp_all add: h)
    have len: "max ?a ?kh = file_len_created H wh n"
      using True by (simp add: file_len_created_def Let_def)
    have R: "?R = (0, fst (snd ?C), snd (snd ?C))"
      using True acc o(1,2) i(1,2) h(1,2)
      by (simp add: tsdbCreateFile_def case_prod_beta Let_def)
    show ?G
      unfolding R using True fresh by (simp add: k h i o len)
  next
    case False
    have fb1': "file_bytes ?fs1 (of_path ?e1) = replicate 0 0" using fb1 by simp
    let ?W = "tsdbWriteFileHead H ?f1 ?fs1"
    let ?f3 = "\<lparr>fname = ?name, fd = ?d, fsize = int ?hs\<rparr>"
    let ?fs3 = "snd (snd ?W)"
    let ?kh = "min (MAX_RW_COUNT H) ?hs"
    let ?e3 = "\<lparr>of_path = ?name, of_pos = ?kh, of_mode = O_WRONLY\<rparr>"
    have len: "?kh = file_len_created H wh n"
      using False by (simp add: file_len_created_def Let_def)
    have h: "fst ?W = 0" "fst (snd ?W) = ?f3"
      "fd_lookup ?fs3 = (fd_lookup ?fs1)(?d \<mapsto> ?e3)"
      "disk ?fs3 = (disk ?fs1)(?name \<mapsto> replicate ?kh 0)"
      "deny_open ?fs3 = deny_open fs" "deny_write ?fs3 = deny_write fs"
      using tsdbWriteFileHead_ok [OF lk1 w1 fb1', of H] by (simp_all add: o)
    have lk3: "fd_lookup ?fs3 (fd ?f3) = Some ?e3" by (simp add: h)
    have op3: "TSDB_IS_FILE_OPENED H (fd ?f3)" using op by simp
    let ?C = "tsdbCloseFile H ?f3 ?fs3"
    have k: "fst (snd ?C) = \<lparr>fname = ?name, fd = - 1, fsize = fsize ?f3\<rparr>"
      "fd_lookup (snd (snd ?C)) = (fd_lookup ?fs3)(?d := None)"
      "disk (snd (snd ?C)) = disk ?fs3"
      "deny_open (snd (snd ?C)) = deny_open fs" "deny_write (snd (snd ?C)) = deny_write fs"
      using tsdbCloseFile_ok [OF op3 lk3] by (simp_all add: h)
    have R: "?R = (0, fst (snd ?C), snd (snd ?C))"
      using False acc o(1,2) h(1,2)
      by (simp add: tsdbCreateFile_def case_prod_beta Let_def)
    show ?G
      unfolding R using False fresh by (simp add: k h o len)
  qed
  from all show "fst ?R = 0"
    and "fst (snd ?R) = \<lparr>fname = ?name, fd = - 1,
            fsize = (if wh then idx_region_size H n else 0) + int ?hs\<rparr>"
    and "disk (snd (snd ?R))
         = (disk fs)(?name \<mapsto> replicate (file_len_created H wh n) 0)"
    and "fd_lookup (snd (snd ?R)) = fd_lookup fs"
    and "deny_open (snd (snd ?R)) = deny_open fs"
    and "deny_write (snd (snd ?R)) = deny_write fs"
    by blast+
qed


lemma tsdbCreateFile_fail:
  assumes Hok: "fhdr_ok H"
    and c: "\<not> creatable H fs (tsdbGetFileName dataDir fid suffix) wh n"
  shows "fst (tsdbCreateFile H dataDir fid suffix n wh True fs) = - 1"
proof -
  let ?name = "tsdbGetFileName dataDir fid suffix"
  let ?hs = "TSDB_FILE_HEAD_SIZE H"
  let ?f0 = "\<lparr>fname = ?name, fd = - 1, fsize = 0\<rparr>"
  let ?d = "int (first_free (fdt fs))"
  let ?O = "tsdbOpenFile H ?f0 O_WRONLY True fs"
  let ?f1 = "\<lparr>fname = ?name, fd = ?d, fsize = 0\<rparr>"
  let ?fs1 = "snd (snd ?O)"
  let ?e1 = "\<lparr>of_path = ?name, of_pos = 0, of_mode = O_WRONLY\<rparr>"
  let ?R = "tsdbCreateFile H dataDir fid suffix n wh True fs"
  from Hok have cl: "\<not> TSDB_IS_FILE_OPENED H (- 1)" by (simp add: fhdr_ok_def)
  show ?thesis
  proof (cases "disk fs ?name = None")
    case False
    then show ?thesis by (simp add: tsdbCreateFile_def sys_access_def Let_def)
  next
    case nex: True
    then have acc: "sys_access fs ?name \<noteq> 0" by (simp add: sys_access_def)
    show ?thesis
    proof (cases "?name \<in> deny_open fs")
      case True
      then have "fst ?O = - 1" using tsdbOpenFile_denied [of H ?f0 fs True O_WRONLY] cl by simp
      then show ?thesis using acc by (simp add: tsdbCreateFile_def case_prod_beta Let_def)
    next
      case nd: False
      have o: "fst ?O = 0" "fst (snd ?O) = ?f1"
        "fd_lookup ?fs1 = (fd_lookup fs)(?d := Some ?e1)"
        "disk ?fs1 = (disk fs)(?name \<mapsto> [])" "deny_write ?fs1 = deny_write fs"
        using tsdbOpenFile_ok [of H ?f0 fs True O_WRONLY] cl nd nex by simp_all
      have lk1: "fd_lookup ?fs1 (fd ?f1) = Some ?e1" by (simp add: o)
      show ?thesis
      proof (cases "wh \<and> (idx_region_size H n < 0 \<or> ?name \<in> deny_write fs)")
        case True
        then have "idx_region_size H n < 0 \<or> of_path ?e1 \<in> deny_write ?fs1" by (simp add: o)
        from tsdbWriteHeadFileIdx_fail [OF lk1 this]
        show ?thesis using True acc o(1,2)
          by (simp add: tsdbCreateFile_def case_prod_beta Let_def)
      next
        case ok: False
        then have den: "?name \<in> deny_write fs"
          using c nex nd by (auto simp: creatable_def)
        with ok have nwh: "\<not> wh" by simp
        have "of_path ?e1 \<in> deny_write ?fs1" using den by (simp add: o)
        from tsdbWriteFileHead_denied [OF lk1 this, of H]
        show ?thesis using nwh acc o(1,2)
          by (simp add: tsdbCreateFile_def case_prod_beta Let_def)
      qed
    qed
  qed
qed

text \<open>
  Claim C10. When a file of the target name exists, \<^verbatim>\<open>tsdbCreateFile\<close> returns \<open>-1\<close> and
  the file system is exactly as before: no descriptor was opened and no byte of the
  existing file was cut or written. The \<^verbatim>\<open>SFile\<close> it leaves holds the name and the
  descriptor \<open>-1\<close>.
\<close>

theorem tsdbCreateFile_existing_file_untouched:
  assumes "disk fs (tsdbGetFileName dataDir fid suffix) \<noteq> None"
  shows "tsdbCreateFile H dataDir fid suffix nTables writeHeader toClose fs
     = (- 1, \<lparr>fname = tsdbGetFileName dataDir fid suffix, fd = - 1, fsize = 0\<rparr>, fs)"
  using assms by (simp add: tsdbCreateFile_def sys_access_def Let_def)

lemma name_7_head: "tsdbGetFileName ''/tsdb/data'' 7 ''.head'' = ''/tsdb/data/f7.head''"
  by (simp add: tsdbGetFileName_def show_int_def show_nat.simps)

theorem tsdbCreateFile_existing_file_untouched_witness:
  "disk fs_leftover (tsdbGetFileName ''/tsdb/data'' 7 ''.head'') \<noteq> None \<and>
   tsdbCreateFile fhdr_std ''/tsdb/data'' 7 ''.head'' 10 True True fs_leftover
     = (- 1, \<lparr>fname = ''/tsdb/data/f7.head'', fd = - 1, fsize = 0\<rparr>, fs_leftover)"
proof -
  have e: "disk fs_leftover (tsdbGetFileName ''/tsdb/data'' 7 ''.head'') \<noteq> None"
    by (simp add: name_7_head fs_leftover_def)
  from tsdbCreateFile_existing_file_untouched [OF e] e show ?thesis
    by (simp add: name_7_head)
qed

subsection \<open>Creating a file group\<close>

lemma tsdbGetFileName_inj [simp]:
  "tsdbGetFileName dataDir fid s = tsdbGetFileName dataDir fid s' \<longleftrightarrow> s = s'"
  by (simp add: tsdbGetFileName_def)

lemma creatable_cong:
  "disk fs' name = disk fs name \<Longrightarrow> deny_open fs' = deny_open fs \<Longrightarrow> deny_write fs' = deny_write fs
   \<Longrightarrow> creatable H fs' name wh n = creatable H fs name wh n"
  by (simp add: creatable_def)

lemma create_files_ok:
  assumes Hok: "fhdr_ok H" and g: "group_creatable H fs dataDir fid n"
  shows "fst (create_files H dataDir fid n 0 tsdbFileSuffix [] fs) = 0"
    and "fst (snd (create_files H dataDir fid n 0 tsdbFileSuffix [] fs))
         = [\<lparr>fname = tsdbGetFileName dataDir fid ''.head'', fd = - 1,
              fsize = idx_region_size H n + int (TSDB_FILE_HEAD_SIZE H)\<rparr>,
            \<lparr>fname = tsdbGetFileName dataDir fid ''.data'', fd = - 1,
              fsize = int (TSDB_FILE_HEAD_SIZE H)\<rparr>,
            \<lparr>fname = tsdbGetFileName dataDir fid ''.last'', fd = - 1,
              fsize = int (TSDB_FILE_HEAD_SIZE H)\<rparr>]"
    and "disk (snd (snd (create_files H dataDir fid n 0 tsdbFileSuffix [] fs)))
         = (disk fs)
             (tsdbGetFileName dataDir fid ''.head'' \<mapsto> replicate (file_len_created H True n) 0,
              tsdbGetFileName dataDir fid ''.data'' \<mapsto> replicate (file_len_created H False n) 0,
              tsdbGetFileName dataDir fid ''.last'' \<mapsto> replicate (file_len_created H False n) 0)"
    and "fd_lookup (snd (snd (create_files H dataDir fid n 0 tsdbFileSuffix [] fs))) = fd_lookup fs"
    and "deny_open (snd (snd (create_files H dataDir fid n 0 tsdbFileSuffix [] fs))) = deny_open fs"
    and "deny_write (snd (snd (create_files H dataDir fid n 0 tsdbFileSuffix [] fs))) = deny_write fs"
proof -
  let ?A = "tsdbCreateFile H dataDir fid ''.head'' n True True fs"
  let ?fsA = "snd (snd ?A)"
  let ?B = "tsdbCreateFile H dataDir fid ''.data'' n False True ?fsA"
  let ?fsB = "snd (snd ?B)"
  let ?C = "tsdbCreateFile H dataDir fid ''.last'' n False True ?fsB"
  from g have cA: "creatable H fs (tsdbGetFileName dataDir fid ''.head'') True n"
    and cB0: "creatable H fs (tsdbGetFileName dataDir fid ''.data'') False n"
    and cC0: "creatable H fs (tsdbGetFileName dataDir fid ''.last'') False n"
    by (simp_all add: group_creatable_def)
  note a = tsdbCreateFile_ok [OF Hok cA]
  have cB: "creatable H ?fsA (tsdbGetFileName dataDir fid ''.data'') False n"
    using cB0 by (simp add: creatable_def a)
  note b = tsdbCreateFile_ok [OF Hok cB]
  have cC: "creatable H ?fsB (tsdbGetFileName dataDir fid ''.last'') False n"
    using cC0 by (simp add: creatable_def a b)
  note c = tsdbCreateFile_ok [OF Hok cC]
  have R: "create_files H dataDir fid n 0 tsdbFileSuffix [] fs
      = (0, [fst (snd ?A), fst (snd ?B), fst (snd ?C)], snd (snd ?C))"
    using a(1) b(1) c(1) by (simp add: tsdbFileSuffix_def create_files.simps case_prod_beta Let_def)
  show "fst (create_files H dataDir fid n 0 tsdbFileSuffix [] fs) = 0"
    and "fst (snd (create_files H dataDir fid n 0 tsdbFileSuffix [] fs))
         = [\<lparr>fname = tsdbGetFileName dataDir fid ''.head'', fd = - 1,
              fsize = idx_region_size H n + int (TSDB_FILE_HEAD_SIZE H)\<rparr>,
            \<lparr>fname = tsdbGetFileName dataDir fid ''.data'', fd = - 1,
              fsize = int (TSDB_FILE_HEAD_SIZE H)\<rparr>,
            \<lparr>fname = tsdbGetFileName dataDir fid ''.last'', fd = - 1,
              fsize = int (TSDB_FILE_HEAD_SIZE H)\<rparr>]"
    and "disk (snd (snd (create_files H dataDir fid n 0 tsdbFileSuffix [] fs)))
         = (disk fs)
             (tsdbGetFileName dataDir fid ''.head'' \<mapsto> replicate (file_len_created H True n) 0,
              tsdbGetFileName dataDir fid ''.data'' \<mapsto> replicate (file_len_created H False n) 0,
              tsdbGetFileName dataDir fid ''.last'' \<mapsto> replicate (file_len_created H False n) 0)"
    and "fd_lookup (snd (snd (create_files H dataDir fid n 0 tsdbFileSuffix [] fs))) = fd_lookup fs"
    and "deny_open (snd (snd (create_files H dataDir fid n 0 tsdbFileSuffix [] fs))) = deny_open fs"
    and "deny_write (snd (snd (create_files H dataDir fid n 0 tsdbFileSuffix [] fs))) = deny_write fs"
    unfolding R by (simp_all add: a b c)
qed

lemma create_files_fail:
  assumes Hok: "fhdr_ok H" and g: "\<not> group_creatable H fs dataDir fid n"
  shows "fst (create_files H dataDir fid n 0 tsdbFileSuffix [] fs) = - 1"
proof -
  let ?A = "tsdbCreateFile H dataDir fid ''.head'' n True True fs"
  let ?fsA = "snd (snd ?A)"
  let ?B = "tsdbCreateFile H dataDir fid ''.data'' n False True ?fsA"
  let ?fsB = "snd (snd ?B)"
  let ?C = "tsdbCreateFile H dataDir fid ''.last'' n False True ?fsB"
  show ?thesis
  proof (cases "creatable H fs (tsdbGetFileName dataDir fid ''.head'') True n")
    case False
    from tsdbCreateFile_fail [OF Hok this] show ?thesis
      by (simp add: tsdbFileSuffix_def create_files.simps case_prod_beta Let_def)
  next
    case cA: True
    note a = tsdbCreateFile_ok [OF Hok cA]
    show ?thesis
    proof (cases "creatable H fs (tsdbGetFileName dataDir fid ''.data'') False n")
      case False
      then have "\<not> creatable H ?fsA (tsdbGetFileName dataDir fid ''.data'') False n"
        by (simp add: creatable_def a)
      from tsdbCreateFile_fail [OF Hok this] a(1) show ?thesis
        by (simp add: tsdbFileSuffix_def create_files.simps case_prod_beta Let_def)
    next
      case cB0: True
      then have cB: "creatable H ?fsA (tsdbGetFileName dataDir fid ''.data'') False n"
        by (simp add: creatable_def a)
      note b = tsdbCreateFile_ok [OF Hok cB]
      have "\<not> creatable H fs (tsdbGetFileName dataDir fid ''.last'') False n"
        using g cA cB0 by (simp add: group_creatable_def)
      then have "\<not> creatable H ?fsB (tsdbGetFileName dataDir fid ''.last'') False n"
        by (simp add: creatable_def a b)
      from tsdbCreateFile_fail [OF Hok this] a(1) b(1) show ?thesis
        by (simp add: tsdbFileSuffix_def create_files.simps case_prod_beta Let_def)
    qed
  qed
qed

lemma tsdbCreateFGroup_new:
  assumes Hok: "fhdr_ok H" and room: "numOfFGroups h < maxFGroups h"
    and sn: "tsdbSearchFGroup h fid = None" and gc: "group_creatable H fs dataDir fid n"
  shows "tsdbCreateFGroup H h dataDir fid n fs
     = (0,
        h\<lparr>fGroup := qsort compFGroup
              (fGroup h @ [\<lparr>fileId = fid,
                            files = fst (snd (create_files H dataDir fid n 0 tsdbFileSuffix [] fs))\<rparr>])\<rparr>,
        snd (snd (create_files H dataDir fid n 0 tsdbFileSuffix [] fs)))"
  using room sn create_files_ok(1) [OF Hok gc]
  by (simp add: tsdbCreateFGroup_def case_prod_beta Let_def)


lemma fhdr_std_ok: "fhdr_ok fhdr_std"
  by (simp add: fhdr_ok_def fhdr_std_def)

lemma idx_region_std: "idx_region_size fhdr_std 10 = 240"
  by (simp add: idx_region_size_def fhdr_std_def)

lemma group_creatable_empty: "group_creatable fhdr_std fs_empty dataDir fid 10"
  by (simp add: group_creatable_def creatable_def fs_empty_def idx_region_std)



text \<open>
  Claim C7, as the code has it, for a directory sorted by file id (the ids small enough
  for the comparison by subtraction). \<^verbatim>\<open>tsdbCreateFGroup\<close> first tests the capacity:
  when the directory is full it returns \<open>-1\<close> and changes nothing, also when the file id
  is present. With room left: if the file id is present it returns 0 and changes
  nothing, neither the directory nor the file system. If it is absent and the three
  files can be created, it returns 0; the files \<^verbatim>\<open>f<fid>.head\<close>, \<^verbatim>\<open>f<fid>.data\<close> and
  \<^verbatim>\<open>f<fid>.last\<close> exist afterwards, every other file is as before and the open
  descriptors are those of before (the new files are closed again); the directory holds
  the old groups and the group of the new file id with these three files, and is sorted
  by file id. If it is absent and one of the files cannot be created (for instance
  because a file of that name exists), it returns \<open>-1\<close> and the directory is unchanged.
\<close>

theorem tsdbCreateFGroup_behaviour:
  assumes Hok: "fhdr_ok H"
    and sorted: "sorted_wrt (\<lambda>a b. sint (fileId a) < sint (fileId b)) (fGroup h)"
    and small: "\<forall>g \<in> set (fGroup h). fid_small (fileId g)" "fid_small fid"
  shows
    "(maxFGroups h \<le> numOfFGroups h \<longrightarrow>
        tsdbCreateFGroup H h dataDir fid n fs = (- 1, h, fs)) \<and>
     (numOfFGroups h < maxFGroups h \<and> fid \<in> fileId ` set (fGroup h) \<longrightarrow>
        tsdbCreateFGroup H h dataDir fid n fs = (0, h, fs)) \<and>
     (numOfFGroups h < maxFGroups h \<and> fid \<notin> fileId ` set (fGroup h)
        \<and> \<not> group_creatable H fs dataDir fid n \<longrightarrow>
        fst (tsdbCreateFGroup H h dataDir fid n fs) = - 1
        \<and> fst (snd (tsdbCreateFGroup H h dataDir fid n fs)) = h) \<and>
     (numOfFGroups h < maxFGroups h \<and> fid \<notin> fileId ` set (fGroup h)
        \<and> group_creatable H fs dataDir fid n \<longrightarrow>
        fst (tsdbCreateFGroup H h dataDir fid n fs) = 0
        \<and> maxFGroups (fst (snd (tsdbCreateFGroup H h dataDir fid n fs))) = maxFGroups h
        \<and> length (fGroup (fst (snd (tsdbCreateFGroup H h dataDir fid n fs))))
            = Suc (length (fGroup h))
        \<and> sorted_wrt (\<lambda>a b. sint (fileId a) < sint (fileId b))
            (fGroup (fst (snd (tsdbCreateFGroup H h dataDir fid n fs))))
        \<and> set (fGroup (fst (snd (tsdbCreateFGroup H h dataDir fid n fs))))
            = insert
                \<lparr>fileId = fid,
                 files = [\<lparr>fname = tsdbGetFileName dataDir fid ''.head'', fd = - 1,
                            fsize = idx_region_size H n + int (TSDB_FILE_HEAD_SIZE H)\<rparr>,
                          \<lparr>fname = tsdbGetFileName dataDir fid ''.data'', fd = - 1,
                            fsize = int (TSDB_FILE_HEAD_SIZE H)\<rparr>,
                          \<lparr>fname = tsdbGetFileName dataDir fid ''.last'', fd = - 1,
                            fsize = int (TSDB_FILE_HEAD_SIZE H)\<rparr>]\<rparr>
                (set (fGroup h))
        \<and> disk (snd (snd (tsdbCreateFGroup H h dataDir fid n fs)))
              (tsdbGetFileName dataDir fid ''.head'') \<noteq> None
        \<and> disk (snd (snd (tsdbCreateFGroup H h dataDir fid n fs)))
              (tsdbGetFileName dataDir fid ''.data'') \<noteq> None
        \<and> disk (snd (snd (tsdbCreateFGroup H h dataDir fid n fs)))
              (tsdbGetFileName dataDir fid ''.last'') \<noteq> None
        \<and> (\<forall>p. p \<noteq> tsdbGetFileName dataDir fid ''.head''
                \<and> p \<noteq> tsdbGetFileName dataDir fid ''.data''
                \<and> p \<noteq> tsdbGetFileName dataDir fid ''.last''
              \<longrightarrow> disk (snd (snd (tsdbCreateFGroup H h dataDir fid n fs))) p = disk fs p)
        \<and> fd_lookup (snd (snd (tsdbCreateFGroup H h dataDir fid n fs))) = fd_lookup fs)"
proof -
  note sorted' = sorted [unfolded sorted_fkey]
  note srch = tsdbSearchFGroup_None_iff [OF small sorted']
  let ?CF = "create_files H dataDir fid n 0 tsdbFileSuffix [] fs"
  let ?g = "\<lparr>fileId = fid,
             files = [\<lparr>fname = tsdbGetFileName dataDir fid ''.head'', fd = - 1,
                        fsize = idx_region_size H n + int (TSDB_FILE_HEAD_SIZE H)\<rparr>,
                      \<lparr>fname = tsdbGetFileName dataDir fid ''.data'', fd = - 1,
                        fsize = int (TSDB_FILE_HEAD_SIZE H)\<rparr>,
                      \<lparr>fname = tsdbGetFileName dataDir fid ''.last'', fd = - 1,
                        fsize = int (TSDB_FILE_HEAD_SIZE H)\<rparr>]\<rparr>"
  let ?R = "tsdbCreateFGroup H h dataDir fid n fs"
  have full: "maxFGroups h \<le> numOfFGroups h \<Longrightarrow> ?R = (- 1, h, fs)"
    by (simp add: tsdbCreateFGroup_def)
  have present: "numOfFGroups h < maxFGroups h \<Longrightarrow> fid \<in> fileId ` set (fGroup h)
      \<Longrightarrow> ?R = (0, h, fs)"
  proof -
    assume a: "numOfFGroups h < maxFGroups h" "fid \<in> fileId ` set (fGroup h)"
    then obtain i where "tsdbSearchFGroup h fid = Some i" using srch by auto
    with a(1) show ?thesis by (simp add: tsdbCreateFGroup_def)
  qed
  have failing: "numOfFGroups h < maxFGroups h \<Longrightarrow> fid \<notin> fileId ` set (fGroup h)
      \<Longrightarrow> \<not> group_creatable H fs dataDir fid n
      \<Longrightarrow> fst ?R = - 1 \<and> fst (snd ?R) = h"
  proof -
    assume a: "numOfFGroups h < maxFGroups h" "fid \<notin> fileId ` set (fGroup h)"
      "\<not> group_creatable H fs dataDir fid n"
    have sn: "tsdbSearchFGroup h fid = None" using srch a(2) by simp
    from create_files_fail [OF Hok a(3)] a(1) sn show ?thesis
      by (simp add: tsdbCreateFGroup_def case_prod_beta Let_def)
  qed
  have creating: "fst ?R = 0
        \<and> maxFGroups (fst (snd ?R)) = maxFGroups h
        \<and> length (fGroup (fst (snd ?R))) = Suc (length (fGroup h))
        \<and> sorted_wrt (\<lambda>a b. sint (fileId a) < sint (fileId b)) (fGroup (fst (snd ?R)))
        \<and> set (fGroup (fst (snd ?R))) = insert ?g (set (fGroup h))
        \<and> disk (snd (snd ?R)) (tsdbGetFileName dataDir fid ''.head'') \<noteq> None
        \<and> disk (snd (snd ?R)) (tsdbGetFileName dataDir fid ''.data'') \<noteq> None
        \<and> disk (snd (snd ?R)) (tsdbGetFileName dataDir fid ''.last'') \<noteq> None
        \<and> (\<forall>p. p \<noteq> tsdbGetFileName dataDir fid ''.head''
                \<and> p \<noteq> tsdbGetFileName dataDir fid ''.data''
                \<and> p \<noteq> tsdbGetFileName dataDir fid ''.last''
              \<longrightarrow> disk (snd (snd ?R)) p = disk fs p)
        \<and> fd_lookup (snd (snd ?R)) = fd_lookup fs"
    if room: "numOfFGroups h < maxFGroups h" and absent: "fid \<notin> fileId ` set (fGroup h)"
      and gc: "group_creatable H fs dataDir fid n"
  proof -
    have sn: "tsdbSearchFGroup h fid = None" using srch absent by simp
    note cf = create_files_ok [OF Hok gc]
    have R: "?R = (0, h\<lparr>fGroup := qsort compFGroup (fGroup h @ [?g])\<rparr>, snd (snd ?CF))"
      using tsdbCreateFGroup_new [OF Hok room sn gc] by (simp add: cf)
    have q: "sorted_wrt (\<lambda>a b. fkey a < fkey b) (qsort compFGroup (fGroup h @ [?g]))
        \<and> set (qsort compFGroup (fGroup h @ [?g])) = insert ?g (set (fGroup h))
        \<and> length (qsort compFGroup (fGroup h @ [?g])) = Suc (length (fGroup h))"
      using small absent by (intro qsort_append_new sorted') simp_all
    have d: "disk (snd (snd ?CF)) (tsdbGetFileName dataDir fid ''.head'') \<noteq> None"
      "disk (snd (snd ?CF)) (tsdbGetFileName dataDir fid ''.data'') \<noteq> None"
      "disk (snd (snd ?CF)) (tsdbGetFileName dataDir fid ''.last'') \<noteq> None"
      "\<forall>p. p \<noteq> tsdbGetFileName dataDir fid ''.head''
           \<and> p \<noteq> tsdbGetFileName dataDir fid ''.data''
           \<and> p \<noteq> tsdbGetFileName dataDir fid ''.last''
         \<longrightarrow> disk (snd (snd ?CF)) p = disk fs p"
      by (simp_all add: cf)
    show ?thesis
      unfolding R fst_conv snd_conv using q d cf(4) by (simp add: sorted_fkey)
  qed
  have c1: "maxFGroups h \<le> numOfFGroups h \<longrightarrow> ?R = (- 1, h, fs)"
    using full by (rule impI)
  have c2: "numOfFGroups h < maxFGroups h \<and> fid \<in> fileId ` set (fGroup h) \<longrightarrow> ?R = (0, h, fs)"
    using present by (intro impI, elim conjE)
  have c3: "numOfFGroups h < maxFGroups h \<and> fid \<notin> fileId ` set (fGroup h)
        \<and> \<not> group_creatable H fs dataDir fid n \<longrightarrow> fst ?R = - 1 \<and> fst (snd ?R) = h"
    using failing by (intro impI, elim conjE)
  show ?thesis
    apply (rule conjI [OF c1 conjI [OF c2 conjI [OF c3]]])
    apply (intro impI, elim conjE)
    apply (rule creating)
      apply assumption+
    done
qed

theorem tsdbCreateFGroup_behaviour_witness:
  "fhdr_ok fhdr_std \<and>
   tsdbCreateFGroup fhdr_std dir_full ''/tsdb/data'' 5 10 fs_empty = (- 1, dir_full, fs_empty) \<and>
   tsdbCreateFGroup fhdr_std dir_two ''/tsdb/data'' 9 10 fs_empty = (0, dir_two, fs_empty) \<and>
   \<not> group_creatable fhdr_std fs_leftover ''/tsdb/data'' 7 10 \<and>
   fst (tsdbCreateFGroup fhdr_std dir_two ''/tsdb/data'' 7 10 fs_leftover) = - 1 \<and>
   fst (snd (tsdbCreateFGroup fhdr_std dir_two ''/tsdb/data'' 7 10 fs_leftover)) = dir_two \<and>
   fst (tsdbCreateFGroup fhdr_std dir_two ''/tsdb/data'' 5 10 fs_empty) = 0 \<and>
   length (fGroup (fst (snd (tsdbCreateFGroup fhdr_std dir_two ''/tsdb/data'' 5 10 fs_empty)))) = 3 \<and>
   sorted_wrt (\<lambda>a b. sint (fileId a) < sint (fileId b))
     (fGroup (fst (snd (tsdbCreateFGroup fhdr_std dir_two ''/tsdb/data'' 5 10 fs_empty)))) \<and>
   set (fGroup (fst (snd (tsdbCreateFGroup fhdr_std dir_two ''/tsdb/data'' 5 10 fs_empty))))
     = {group_of 3, group_of 5, group_of 9} \<and>
   disk (snd (snd (tsdbCreateFGroup fhdr_std dir_two ''/tsdb/data'' 5 10 fs_empty)))
     (tsdbGetFileName ''/tsdb/data'' 5 ''.head'') \<noteq> None"
proof -
  let ?cmp = "\<lambda>a b. sint (fileId a) < sint (fileId b)"
  have sF: "sorted_wrt ?cmp (fGroup dir_full)" "\<forall>g \<in> set (fGroup dir_full). fid_small (fileId g)"
    by (simp_all add: dir_full_def group_of_def fid_small_def)
  have s2: "sorted_wrt ?cmp (fGroup dir_two)" "\<forall>g \<in> set (fGroup dir_two). fid_small (fileId g)"
    by (simp_all add: dir_two_def group_of_def fid_small_def)
  have sm: "fid_small 5" "fid_small 9" "fid_small 7" by (simp_all add: fid_small_def)
  have capF: "maxFGroups dir_full \<le> numOfFGroups dir_full"
    by (simp add: dir_full_def numOfFGroups_def)
  have room: "numOfFGroups dir_two < maxFGroups dir_two"
    by (simp add: dir_two_def numOfFGroups_def)
  have mem: "9 \<in> fileId ` set (fGroup dir_two)" "7 \<notin> fileId ` set (fGroup dir_two)"
    "5 \<notin> fileId ` set (fGroup dir_two)"
    by (simp_all add: dir_two_def group_of_def)
  have ngc: "\<not> group_creatable fhdr_std fs_leftover ''/tsdb/data'' 7 10"
    by (simp add: group_creatable_def creatable_def name_7_head fs_leftover_def)
  note gc = group_creatable_empty [of "''/tsdb/data''" 5]
  note TF = tsdbCreateFGroup_behaviour [OF fhdr_std_ok sF sm(1), of "''/tsdb/data''" 10 fs_empty]
  note a = TF [THEN conjunct1, THEN mp, OF capF]
  note T9 = tsdbCreateFGroup_behaviour [OF fhdr_std_ok s2 sm(2), of "''/tsdb/data''" 10 fs_empty]
  note b = T9 [THEN conjunct2, THEN conjunct1, THEN mp, OF conjI [OF room mem(1)]]
  note T7 = tsdbCreateFGroup_behaviour [OF fhdr_std_ok s2 sm(3), of "''/tsdb/data''" 10 fs_leftover]
  note c = T7 [THEN conjunct2, THEN conjunct2, THEN conjunct1, THEN mp,
      OF conjI [OF room conjI [OF mem(2) ngc]]]
  note T5 = tsdbCreateFGroup_behaviour [OF fhdr_std_ok s2 sm(1), of "''/tsdb/data''" 10 fs_empty]
  note d = T5 [THEN conjunct2, THEN conjunct2, THEN conjunct2, THEN mp,
      OF conjI [OF room conjI [OF mem(3) gc]]]
  note d1 = d [THEN conjunct1]
  note d3 = d [THEN conjunct2, THEN conjunct2, THEN conjunct1]
  note d4 = d [THEN conjunct2, THEN conjunct2, THEN conjunct2, THEN conjunct1]
  note d5 = d [THEN conjunct2, THEN conjunct2, THEN conjunct2, THEN conjunct2, THEN conjunct1]
  note d6 = d [THEN conjunct2, THEN conjunct2, THEN conjunct2, THEN conjunct2, THEN conjunct2,
      THEN conjunct1]
  let ?R = "tsdbCreateFGroup fhdr_std dir_two ''/tsdb/data'' 5 10 fs_empty"
  have g5: "\<lparr>fileId = 5,
            files = [\<lparr>fname = tsdbGetFileName ''/tsdb/data'' 5 ''.head'', fd = - 1,
                       fsize = idx_region_size fhdr_std 10 + int (TSDB_FILE_HEAD_SIZE fhdr_std)\<rparr>,
                     \<lparr>fname = tsdbGetFileName ''/tsdb/data'' 5 ''.data'', fd = - 1,
                       fsize = int (TSDB_FILE_HEAD_SIZE fhdr_std)\<rparr>,
                     \<lparr>fname = tsdbGetFileName ''/tsdb/data'' 5 ''.last'', fd = - 1,
                       fsize = int (TSDB_FILE_HEAD_SIZE fhdr_std)\<rparr>]\<rparr> = group_of 5"
    by (simp only: idx_region_std) (simp add: group_of_def fhdr_std_def)
  have two: "set (fGroup dir_two) = {group_of 3, group_of 9}" "length (fGroup dir_two) = 2"
    by (simp_all add: dir_two_def)
  have e1: "length (fGroup (fst (snd ?R))) = 3"
    using d3 by (simp add: two)
  have "set (fGroup (fst (snd ?R))) = insert (group_of 5) {group_of 3, group_of 9}"
    using d5 by (simp only: g5 two)
  then have e2: "set (fGroup (fst (snd ?R))) = {group_of 3, group_of 5, group_of 9}"
    by (simp only: insert_commute)
  from c have c': "fst (tsdbCreateFGroup fhdr_std dir_two ''/tsdb/data'' 7 10 fs_leftover) = - 1"
    "fst (snd (tsdbCreateFGroup fhdr_std dir_two ''/tsdb/data'' 7 10 fs_leftover)) = dir_two"
    by (rule conjunct1, rule conjunct2)
  show ?thesis
    by (intro conjI fhdr_std_ok a b ngc c' d1 e1 d4 e2 d6)
qed

text \<open>
  The claim as stated fails twice: in a full directory the call for a file id that is
  present returns \<open>-1\<close>, not 0; and with room left the call fails when a head file of
  that name was left on disk.
\<close>

theorem tsdbCreateFGroup_not_idempotent_when_full:
  "tsdbSearchFGroup dir_full 5 = Some 5 \<and>
   tsdbCreateFGroup fhdr_std dir_full ''/tsdb/data'' 5 10 fs_empty = (- 1, dir_full, fs_empty) \<and>
   numOfFGroups dir_empty < maxFGroups dir_empty \<and>
   tsdbSearchFGroup dir_empty 7 = None \<and>
   fst (tsdbCreateFGroup fhdr_std dir_empty ''/tsdb/data'' 7 10 fs_leftover) = - 1"
proof -
  have a: "tsdbSearchFGroup dir_full 5 = Some 5"
    by (simp add: tsdbSearchFGroup_def numOfFGroups_def bsearch_def bsearch_loop.simps
        compFGroupKey_def Let_def dir_full_def group_of_def)
  have b: "tsdbCreateFGroup fhdr_std dir_full ''/tsdb/data'' 5 10 fs_empty = (- 1, dir_full, fs_empty)"
    by (simp add: tsdbCreateFGroup_def numOfFGroups_def dir_full_def)
  have c: "numOfFGroups dir_empty < maxFGroups dir_empty" "tsdbSearchFGroup dir_empty 7 = None"
    by (simp_all add: tsdbSearchFGroup_def numOfFGroups_def dir_empty_def)
  have "fst (tsdbCreateFile fhdr_std ''/tsdb/data'' 7 ''.head'' 10 True True fs_leftover) = - 1"
    by (simp add: tsdbCreateFile_def sys_access_def name_7_head fs_leftover_def Let_def)
  then have d: "fst (tsdbCreateFGroup fhdr_std dir_empty ''/tsdb/data'' 7 10 fs_leftover) = - 1"
    using c by (simp add: tsdbCreateFGroup_def tsdbFileSuffix_def create_files.simps case_prod_beta Let_def)
  from a b c d show ?thesis by simp
qed

subsection \<open>Create, open, load\<close>








end
